theory Spec2Isabelle
  imports Complex_Main "HOL-Library.Multiset" "HOL-Library.Log_Nat" "HOL-Library.Sublist"
begin

section \<open>The App shell\<close>

text \<open>
  JavaScript strings are modelled as \<open>string\<close> (a list of 8-bit characters); text outside
  ASCII, such as the emoji icons, is written as its UTF-8 bytes. A \<open>Date\<close> is the number of
  milliseconds since the epoch. An optional field (\<open>difficulty?\<close>, \<open>isPublic?\<close>, ...) is an
  \<open>option\<close>. The field \<open>id\<close> of the two interfaces is called \<open>card_id\<close> and
  \<open>topic_id\<close>, since \<open>id\<close> is the identity function of HOL.
\<close>

datatype difficulty = easy | medium | hard

record Flashcard =
  card_id :: string
  question :: string
  answer :: string
  subject :: string
  difficulty :: "difficulty option"
  lastReviewed :: "nat option"
  correctCount :: "nat option"
  incorrectCount :: "nat option"

record Topic =
  topic_id :: string
  name :: string
  color :: string
  icon :: string
  createdAt :: nat
  isPublic :: "bool option"

text \<open>
  The part of the state of \<open>App\<close> that the topic and flashcard handlers read and write:
  the three \<open>useState\<close> cells \<open>topics\<close>, \<open>flashcards\<close> and \<open>activeTopic\<close>, and the lines
  written with \<open>console.error\<close>.
\<close>

record App =
  topics :: "Topic list"
  flashcards :: "Flashcard list"
  activeTopic :: "string option"
  console :: "string list"

text \<open>
  A handler of a React component is a closure of one render: the state variables it reads
  (\<open>topics\<close>, \<open>activeTopic\<close>) are the values of that render, while a functional update
  \<open>setX(prev => ...)\<close> is applied to the state as it is when the update runs. Each handler
  therefore takes the render \<open>r\<close> whose closure it is and the state \<open>s\<close> it updates; a
  handler called from an event of the current render is \<open>h r ... r\<close>.
\<close>

definition defaultColors :: "string list" where
  "defaultColors = [''#2563EB'', ''#10B981'', ''#FACC15'', ''#DC2626'',
                    ''#8B5CF6'', ''#F59E0B'', ''#06B6D4'', ''#EC4899'']"

definition defaultIcons :: "string list" where
  "defaultIcons =
    [[CHR 0xF0, CHR 0x9F, CHR 0x93, CHR 0x9A], [CHR 0xF0, CHR 0x9F, CHR 0x8E, CHR 0xAF],
     [CHR 0xF0, CHR 0x9F, CHR 0x92, CHR 0xA1], [CHR 0xF0, CHR 0x9F, CHR 0x94, CHR 0xAC],
     [CHR 0xF0, CHR 0x9F, CHR 0x8E, CHR 0xA8], [CHR 0xF0, CHR 0x9F, CHR 0x8F, CHR 0x83],
     [CHR 0xF0, CHR 0x9F, CHR 0x8E, CHR 0xB5], [CHR 0xF0, CHR 0x9F, CHR 0x8C, CHR 0x9F],
     [CHR 0xF0, CHR 0x9F, CHR 0x9A, CHR 0x80], [CHR 0xE2, CHR 0xAD, CHR 0x90],
     [CHR 0xF0, CHR 0x9F, CHR 0x8E, CHR 0xAD], [CHR 0xF0, CHR 0x9F, CHR 0x94, CHR 0xA5]]"

subsection \<open>deleteTopic\<close>

text \<open>
  \<open>topics.find\<close> is \<open>find\<close> of HOL's lists (the first match, or nothing);
  \<open>remainingTopics[0]\<close> is read only when the list is not empty.
\<close>

definition deleteTopic :: "App \<Rightarrow> string \<Rightarrow> App \<Rightarrow> App" where
  "deleteTopic r topicId s =
     (case find (\<lambda>t. topic_id t = topicId) (topics r) of
        None \<Rightarrow> s
      | Some topicToDelete \<Rightarrow>
          (let s1 = s\<lparr>flashcards :=
                        filter (\<lambda>card. subject card \<noteq> name topicToDelete) (flashcards s)\<rparr>;
               s2 = s1\<lparr>topics := filter (\<lambda>t. topic_id t \<noteq> topicId) (topics s1)\<rparr>
           in if activeTopic r = Some topicId
              then (let remainingTopics = filter (\<lambda>t. topic_id t \<noteq> topicId) (topics r)
                    in s2\<lparr>activeTopic :=
                            (case remainingTopics of
                               [] \<Rightarrow> None
                             | t # _ \<Rightarrow> Some (topic_id t))\<rparr>)
              else s2))"

subsection \<open>Number.prototype.toString and String.prototype.trim\<close>

text \<open>
  \<open>Date.now().toString()\<close> is the decimal numeral of a non-negative integer. \<open>trim\<close> removes
  white space and line terminators at both ends: TAB, LF, VT, FF, CR, SPACE, U+00A0,
  U+1680, U+2000 to U+200A, U+2028, U+2029, U+202F, U+205F, U+3000 and U+FEFF, each in
  its UTF-8 bytes. No encoding of one of them ends with the encoding of another, so
  removing encodings at the ends removes exactly these characters.
\<close>

definition digit :: "nat \<Rightarrow> char" where
  "digit d = ''0123456789'' ! d"

function toString :: "nat \<Rightarrow> string" where
  "toString n = (if n < 10 then [digit n] else toString (n div 10) @ [digit (n mod 10)])"
  by pat_completeness auto
termination
  by (relation "measure (\<lambda>n. n)") auto

definition whiteSpace :: "string list" where
  "whiteSpace =
     [[CHR 0x09], [CHR 0x0A], [CHR 0x0B], [CHR 0x0C], [CHR 0x0D], [CHR 0x20],
      [CHR 0xC2, CHR 0xA0], [CHR 0xE1, CHR 0x9A, CHR 0x80],
      [CHR 0xE2, CHR 0x80, CHR 0x80], [CHR 0xE2, CHR 0x80, CHR 0x81],
      [CHR 0xE2, CHR 0x80, CHR 0x82], [CHR 0xE2, CHR 0x80, CHR 0x83],
      [CHR 0xE2, CHR 0x80, CHR 0x84], [CHR 0xE2, CHR 0x80, CHR 0x85],
      [CHR 0xE2, CHR 0x80, CHR 0x86], [CHR 0xE2, CHR 0x80, CHR 0x87],
      [CHR 0xE2, CHR 0x80, CHR 0x88], [CHR 0xE2, CHR 0x80, CHR 0x89],
      [CHR 0xE2, CHR 0x80, CHR 0x8A], [CHR 0xE2, CHR 0x80, CHR 0xA8],
      [CHR 0xE2, CHR 0x80, CHR 0xA9], [CHR 0xE2, CHR 0x80, CHR 0xAF],
      [CHR 0xE2, CHR 0x81, CHR 0x9F], [CHR 0xE3, CHR 0x80, CHR 0x80],
      [CHR 0xEF, CHR 0xBB, CHR 0xBF]]"

function trimStart :: "string \<Rightarrow> string" where
  "trimStart str =
     (case find (\<lambda>w. prefix w str) whiteSpace of
        None \<Rightarrow> str
      | Some w \<Rightarrow> trimStart (drop (length w) str))"
  by pat_completeness auto
termination
proof (relation "measure length")
  fix str w
  assume "find (\<lambda>w. prefix w str) whiteSpace = Some w"
  then have "w \<in> set whiteSpace" "prefix w str"
    by (auto simp: find_Some_iff)
  then have "w \<noteq> []" "length w \<le> length str"
    by (auto simp: whiteSpace_def prefix_length_le)
  then show "(drop (length w) str, str) \<in> measure length"
    by (cases w) auto
qed simp

function trimEnd :: "string \<Rightarrow> string" where
  "trimEnd str =
     (case find (\<lambda>w. suffix w str) whiteSpace of
        None \<Rightarrow> str
      | Some w \<Rightarrow> trimEnd (take (length str - length w) str))"
  by pat_completeness auto
termination
proof (relation "measure length")
  fix str w
  assume "find (\<lambda>w. suffix w str) whiteSpace = Some w"
  then have "w \<in> set whiteSpace" "suffix w str"
    by (auto simp: find_Some_iff)
  then have "w \<noteq> []" "length w \<le> length str"
    by (auto simp: whiteSpace_def suffix_length_le)
  then show "(take (length str - length w) str, str) \<in> measure length"
    by (cases w) auto
qed simp

definition trim :: "string \<Rightarrow> string" where
  "trim str = trimEnd (trimStart str)"

subsection \<open>addTopic and addFlashcard\<close>

text \<open>
  The argument of \<open>addTopic\<close> has type \<open>Omit<Topic, 'id' | 'createdAt'>\<close> and that of
  \<open>addFlashcard\<close> has type \<open>Omit<Flashcard, 'id'>\<close>: they are modelled as a \<open>Topic\<close> and a
  \<open>Flashcard\<close> whose omitted fields hold a placeholder, which the spread
  \<open>{...topicData, id: ..., createdAt: ...}\<close> overwrites. \<open>now\<close> is the reading of the clock
  (\<open>Date.now()\<close>, \<open>new Date()\<close>) while the handler runs; a handler runs to completion
  within one reading. \<open>defaultColors[i % length]\<close> is always in range.
\<close>

definition addTopic :: "nat \<Rightarrow> Topic \<Rightarrow> App \<Rightarrow> string \<times> App" where
  "addTopic now topicData s =
     (let newTopic = topicData\<lparr>topic_id := toString now, createdAt := now\<rparr>;
          s1 = s\<lparr>topics := topics s @ [newTopic]\<rparr>;
          s2 = s1\<lparr>activeTopic := Some (topic_id newTopic)\<rparr>
      in (topic_id newTopic, s2))"

definition addFlashcard :: "App \<Rightarrow> nat \<Rightarrow> Flashcard \<Rightarrow> App \<Rightarrow> App" where
  "addFlashcard r now newCard s =
     (let card = newCard\<lparr>card_id := toString now, correctCount := Some 0,
                          incorrectCount := Some 0, lastReviewed := Some now\<rparr>;
          s1 = s\<lparr>flashcards := flashcards s @ [card]\<rparr>
      in if find (\<lambda>t. name t = subject newCard) (topics r) = None
         then (let (newTopicId, s2) =
                     addTopic now
                       \<lparr>topic_id = [], name = subject newCard,
                        color = defaultColors ! (length (topics r) mod length defaultColors),
                        icon = defaultIcons ! (length (topics r) mod length defaultIcons),
                        createdAt = 0, isPublic = None\<rparr> s1
               in s2\<lparr>activeTopic := Some newTopicId\<rparr>)
         else s1)"

subsection \<open>updateTopic, updateFlashcard, deleteFlashcard\<close>

text \<open>
  \<open>Partial<Topic>\<close> is a record of optional fields; \<open>{...topic, ...updates}\<close> takes every
  field that \<open>updates\<close> has and keeps the others.
\<close>

record TopicUpdates =
  u_topic_id :: "string option"
  u_name :: "string option"
  u_color :: "string option"
  u_icon :: "string option"
  u_createdAt :: "nat option"
  u_isPublic :: "bool option"

definition spread :: "Topic \<Rightarrow> TopicUpdates \<Rightarrow> Topic" where
  "spread topic updates =
     \<lparr>topic_id = (case u_topic_id updates of None \<Rightarrow> topic_id topic | Some v \<Rightarrow> v),
      name = (case u_name updates of None \<Rightarrow> name topic | Some v \<Rightarrow> v),
      color = (case u_color updates of None \<Rightarrow> color topic | Some v \<Rightarrow> v),
      icon = (case u_icon updates of None \<Rightarrow> icon topic | Some v \<Rightarrow> v),
      createdAt = (case u_createdAt updates of None \<Rightarrow> createdAt topic | Some v \<Rightarrow> v),
      isPublic = (case u_isPublic updates of None \<Rightarrow> isPublic topic | Some v \<Rightarrow> Some v)\<rparr>"

definition updateTopic :: "string \<Rightarrow> TopicUpdates \<Rightarrow> App \<Rightarrow> App" where
  "updateTopic topicId updates s =
     s\<lparr>topics := map (\<lambda>topic. if topic_id topic = topicId then spread topic updates else topic)
                      (topics s)\<rparr>"

definition updateFlashcard :: "Flashcard \<Rightarrow> App \<Rightarrow> App" where
  "updateFlashcard updatedCard s =
     s\<lparr>flashcards := map (\<lambda>card. if card_id card = card_id updatedCard then updatedCard else card)
                          (flashcards s)\<rparr>"

definition deleteFlashcard :: "string \<Rightarrow> App \<Rightarrow> App" where
  "deleteFlashcard cardId s =
     s\<lparr>flashcards := filter (\<lambda>card. card_id card \<noteq> cardId) (flashcards s)\<rparr>"

subsection \<open>The active topic and its flashcards\<close>

text \<open>
  \<open>App\<close> computes both at every render; \<open>activeFlashcards\<close> is the \<open>flashcards\<close> prop of
  the deck. A subject is never equal to the \<open>undefined\<close> name of a missing topic.
\<close>

definition activeTopicData :: "App \<Rightarrow> Topic option" where
  "activeTopicData r = find (\<lambda>t. Some (topic_id t) = activeTopic r) (topics r)"

definition activeFlashcards :: "App \<Rightarrow> Flashcard list" where
  "activeFlashcards r =
     filter (\<lambda>card. Some (subject card) = map_option name (activeTopicData r)) (flashcards r)"

subsection \<open>EditTopicModal: handleSaveTopicDetails\<close>

text \<open>
  The modal is rendered by \<open>App\<close> only when \<open>editingTopicId\<close> finds a topic. Its props are
  that topic and the flashcards whose subject is the topic's name
  (\<open>editingTopicFlashcards\<close>); its own state starts from the topic's name, colour and icon,
  and the form fields change it. \<open>onUpdateTopic\<close> and \<open>onUpdateFlashcard\<close> are
  \<open>updateTopic\<close> and \<open>updateFlashcard\<close> of \<open>App\<close>.
\<close>

record EditTopicModal =
  topic :: Topic
  cards :: "Flashcard list"
  topicName :: string
  selectedColor :: string
  selectedIcon :: string

definition openEditTopicModal :: "App \<Rightarrow> string \<Rightarrow> EditTopicModal option" where
  "openEditTopicModal r editingTopicId =
     (case find (\<lambda>t. topic_id t = editingTopicId) (topics r) of
        None \<Rightarrow> None
      | Some editingTopicData \<Rightarrow>
          Some \<lparr>topic = editingTopicData,
                cards = filter (\<lambda>card. subject card = name editingTopicData) (flashcards r),
                topicName = name editingTopicData,
                selectedColor = color editingTopicData,
                selectedIcon = icon editingTopicData\<rparr>)"

definition renameCard :: "string \<Rightarrow> Flashcard \<Rightarrow> App \<Rightarrow> App" where
  \<comment> \<open>the body of the \<open>forEach\<close> callback\<close>
  "renameCard newName c s =
     (if subject c \<noteq> newName then updateFlashcard (c\<lparr>subject := newName\<rparr>) s else s)"

definition handleSaveTopicDetails :: "EditTopicModal \<Rightarrow> App \<Rightarrow> App" where
  "handleSaveTopicDetails m s =
     (if trim (topicName m) \<noteq> []
      then (let s1 = updateTopic (topic_id (topic m))
                       \<lparr>u_topic_id = None, u_name = Some (trim (topicName m)),
                        u_color = Some (selectedColor m), u_icon = Some (selectedIcon m),
                        u_createdAt = None, u_isPublic = None\<rparr> s
            in fold (renameCard (trim (topicName m))) (cards m) s1)
      else s)"

text \<open>
  How a card \<open>c\<close> and the card \<open>c'\<close> at its position are related while the loop runs, where
  \<open>D\<close> holds the cards the loop has renamed so far: the identifier is the same, the card
  is unchanged or has the new subject, and it has the new subject when a renamed card has
  its identifier.
\<close>

definition renamed :: "string \<Rightarrow> Flashcard set \<Rightarrow> Flashcard \<Rightarrow> Flashcard \<Rightarrow> bool" where
  "renamed nm D c c' =
     (card_id c' = card_id c \<and> (c' = c \<or> subject c' = nm)
      \<and> (\<forall>y \<in> D. card_id c = card_id y \<longrightarrow> subject c' = nm))"

subsection \<open>loadSharedTopic\<close>

text \<open>
  The payload of a share link, as its TypeScript type says: a topic and its flashcards.
  \<open>random k\<close> is the result of \<open>Math.random().toString(36).substr(2, 9)\<close> for the card at
  position \<open>k\<close> of the payload (up to nine characters of \<open>0-9a-z\<close>).
\<close>

record SharedData =
  shared_topic :: Topic
  shared_flashcards :: "Flashcard list"

definition loadSharedTopic ::
    "App \<Rightarrow> nat \<Rightarrow> (nat \<Rightarrow> string) \<Rightarrow> SharedData \<Rightarrow> App \<Rightarrow> App" where
  "loadSharedTopic r now random sharedData s =
     (case find (\<lambda>t. name t = name (shared_topic sharedData)) (topics r) of
        Some existingTopic \<Rightarrow> s
      | None \<Rightarrow>
          (let newTopic = (shared_topic sharedData)\<lparr>topic_id := toString now,
                                                    isPublic := Some True\<rparr>;
               s1 = s\<lparr>topics := topics s @ [newTopic]\<rparr>;
               s2 = s1\<lparr>activeTopic := Some (topic_id newTopic)\<rparr>;
               newCards = map (\<lambda>(k, c). c\<lparr>card_id := toString now @ random k,
                                           subject := name (shared_topic sharedData)\<rparr>)
                              (enumerate 0 (shared_flashcards sharedData))
           in s2\<lparr>flashcards := flashcards s2 @ newCards\<rparr>))"

text \<open>The identifiers in use: those of the topics and those of the flashcards.\<close>

definition identifiers :: "App \<Rightarrow> string set" where
  "identifiers s = topic_id ` set (topics s) \<union> card_id ` set (flashcards s)"

subsection \<open>The share link on startup\<close>

text \<open>
  \<open>atob\<close> is the browser's forgiving base64 decoder: it removes ASCII white space, removes
  one or two \<open>=\<close> at the end when the length is a multiple of four, fails when the length
  is then one more than a multiple of four or when a character is outside the base64
  alphabet, and otherwise turns each group of six-bit values into bytes.
\<close>

definition isAsciiWhitespace :: "char \<Rightarrow> bool" where
  "isAsciiWhitespace c = (c \<in> set [CHR 0x09, CHR 0x0A, CHR 0x0C, CHR 0x0D, CHR 0x20])"

definition base64Alphabet :: string where
  "base64Alphabet = ''ABCDEFGHIJKLMNOPQRSTUVWXYZabcdefghijklmnopqrstuvwxyz0123456789+/''"

fun indexOf :: "'a \<Rightarrow> 'a list \<Rightarrow> nat option" where
  "indexOf x [] = None"
| "indexOf x (y # ys) = (if x = y then Some 0 else map_option Suc (indexOf x ys))"

definition stripPadding :: "string \<Rightarrow> string" where
  "stripPadding d =
     (if length d mod 4 = 0
      then (if 2 \<le> length d \<and> drop (length d - 2) d = ''==''
            then take (length d - 2) d
            else if 1 \<le> length d \<and> drop (length d - 1) d = ''=''
            then take (length d - 1) d
            else d)
      else d)"

fun sextetsToBytes :: "nat list \<Rightarrow> string" where
  "sextetsToBytes (a # b # c # d # rest) =
     char_of (a * 4 + b div 16) # char_of ((b mod 16) * 16 + c div 4)
       # char_of ((c mod 4) * 64 + d) # sextetsToBytes rest"
| "sextetsToBytes [a, b, c] = [char_of (a * 4 + b div 16), char_of ((b mod 16) * 16 + c div 4)]"
| "sextetsToBytes [a, b] = [char_of (a * 4 + b div 16)]"
| "sextetsToBytes _ = []"

datatype exn = InvalidCharacterError | SyntaxError

definition atob :: "string \<Rightarrow> exn + string" where
  "atob data =
     (let d = stripPadding (filter (\<lambda>c. \<not> isAsciiWhitespace c) data)
      in if length d mod 4 = 1 then Inl InvalidCharacterError
         else (case those (map (\<lambda>c. indexOf c base64Alphabet) d) of
                 None \<Rightarrow> Inl InvalidCharacterError
               | Some sextets \<Rightarrow> Inr (sextetsToBytes sextets)))"

text \<open>
  \<open>JSON.parse\<close> is a parameter: it gives the payload, or nothing when the text is not JSON
  and \<open>JSON.parse\<close> throws a SyntaxError. (JSON of another shape than the payload's type is
  outside this model.) The body of the \<open>try\<close> block returns the exception or the new state,
  and the \<open>catch\<close> block turns every exception into a line on the console.
\<close>

definition tryLoadShared ::
    "(string \<Rightarrow> SharedData option) \<Rightarrow> App \<Rightarrow> nat \<Rightarrow> (nat \<Rightarrow> string) \<Rightarrow> string \<Rightarrow> App
      \<Rightarrow> exn + App" where
  "tryLoadShared JSON_parse r now random sharedTopic s =
     (case atob sharedTopic of
        Inl e \<Rightarrow> Inl e
      | Inr text \<Rightarrow>
          (case JSON_parse text of
             None \<Rightarrow> Inl SyntaxError
           | Some decodedData \<Rightarrow> Inr (loadSharedTopic r now random decodedData s)))"

definition checkSharedTopic ::
    "(string \<Rightarrow> SharedData option) \<Rightarrow> App \<Rightarrow> nat \<Rightarrow> (nat \<Rightarrow> string) \<Rightarrow> string option \<Rightarrow> App
      \<Rightarrow> App" where
  "checkSharedTopic JSON_parse r now random param s =
     (case param of
        None \<Rightarrow> s
      | Some sharedTopic \<Rightarrow>
          if sharedTopic = [] then s
          else (case tryLoadShared JSON_parse r now random sharedTopic s of
                  Inl error \<Rightarrow> s\<lparr>console := console s @ [''Invalid shared topic data'']\<rparr>
                | Inr s' \<Rightarrow> s'))"

text \<open>
  The effect that runs once after the first render. Its closure is the first render, in
  which \<open>topics\<close>, \<open>flashcards\<close> and \<open>activeTopic\<close> still have their initial values; the
  values read from local storage are set before the share link is looked at, and the
  functional updates of \<open>loadSharedTopic\<close> apply to them.
\<close>

definition firstRender :: App where
  "firstRender = \<lparr>topics = [], flashcards = [], activeTopic = None, console = []\<rparr>"

record Storage =
  savedTopics :: "Topic list option"
  savedFlashcards :: "Flashcard list option"
  savedActiveTopic :: "string option"

definition loadOnMount ::
    "(string \<Rightarrow> SharedData option) \<Rightarrow> nat \<Rightarrow> (nat \<Rightarrow> string) \<Rightarrow> Storage \<Rightarrow> string option
      \<Rightarrow> App" where
  "loadOnMount JSON_parse now random storage param =
     (let s1 = (case savedTopics storage of
                  None \<Rightarrow> firstRender | Some loadedTopics \<Rightarrow> firstRender\<lparr>topics := loadedTopics\<rparr>);
          s2 = (case savedFlashcards storage of
                  None \<Rightarrow> s1 | Some cs \<Rightarrow> s1\<lparr>flashcards := cs\<rparr>);
          s3 = (case savedActiveTopic storage of
                  None \<Rightarrow> s2
                | Some a \<Rightarrow> if a = [] then s2 else s2\<lparr>activeTopic := Some a\<rparr>)
      in checkSharedTopic JSON_parse firstRender now random param s3)"

section \<open>The Pomodoro timer\<close>

text \<open>
  The settings of \<open>App\<close>, which both the timer and the deck receive. Durations are whole
  minutes chosen with sliders.
\<close>

record Settings =
  autoFlip :: bool
  autoFlipTimer :: nat
  pomodoroWork :: nat
  pomodoroBreak :: nat
  longBreak :: nat
  sessionsUntilLongBreak :: nat
  soundEnabled :: bool
  shuffleCards :: bool
  swipeEnabled :: bool

definition initialSettings :: Settings where
  "initialSettings = \<lparr>autoFlip = False, autoFlipTimer = 5, pomodoroWork = 25, pomodoroBreak = 5,
                       longBreak = 15, sessionsUntilLongBreak = 4, soundEnabled = True,
                       shuffleCards = False, swipeEnabled = True\<rparr>"

text \<open>
  The constructors of \<open>TimerState\<close> are capitalised: \<open>longBreak\<close> is also a field of the
  settings. A date is an instant in milliseconds since the epoch, as an integer.
\<close>

datatype TimerState = Idle | Work | Break | LongBreak | Paused

record PomodoroStats =
  completedSessions :: nat
  totalFocusTime :: nat
  streakDays :: nat
  lastSessionDate :: "int option"

record PartialPomodoroStats =
  p_completedSessions :: "nat option"
  p_totalFocusTime :: "nat option"
  p_streakDays :: "nat option"
  p_lastSessionDate :: "int option"

definition updatePomodoroStats :: "PartialPomodoroStats \<Rightarrow> PomodoroStats \<Rightarrow> PomodoroStats" where
  \<comment> \<open>\<open>setPomodoroStats(prev => ({ ...prev, ...stats }))\<close>\<close>
  "updatePomodoroStats upd prev =
     \<lparr>completedSessions =
        (case p_completedSessions upd of None \<Rightarrow> completedSessions prev | Some v \<Rightarrow> v),
      totalFocusTime = (case p_totalFocusTime upd of None \<Rightarrow> totalFocusTime prev | Some v \<Rightarrow> v),
      streakDays = (case p_streakDays upd of None \<Rightarrow> streakDays prev | Some v \<Rightarrow> v),
      lastSessionDate =
        (case p_lastSessionDate upd of None \<Rightarrow> lastSessionDate prev | Some v \<Rightarrow> Some v)\<rparr>"

text \<open>
  The state the timer works on: the statistics held by \<open>App\<close> and the \<open>useState\<close> cells of
  the component.
\<close>

record Pomodoro =
  stats :: PomodoroStats
  timeLeft :: nat
  timerState :: TimerState
  currentSession :: nat
  showBreakSuggestion :: bool
  currentSuggestion :: string

definition breakSuggestions :: "string list" where
  "breakSuggestions =
    [[CHR 0xF0, CHR 0x9F, CHR 0x9A, CHR 0xB6] @ '' Take a short walk around the room'',
     [CHR 0xF0, CHR 0x9F, CHR 0x92, CHR 0xA7] @ '' Drink a glass of water'',
     [CHR 0xF0, CHR 0x9F, CHR 0x91, CHR 0x81, CHR 0xEF, CHR 0xB8, CHR 0x8F] @ '' Look away from the screen for 20 seconds'',
     [CHR 0xF0, CHR 0x9F, CHR 0xA4, CHR 0xB8] @ '' Do some light stretching'',
     [CHR 0xF0, CHR 0x9F, CHR 0xAB, CHR 0x81] @ '' Take 5 deep breaths'',
     [CHR 0xF0, CHR 0x9F, CHR 0x8C, CHR 0xB1] @ '' Water your plants'',
     [CHR 0xF0, CHR 0x9F, CHR 0xA7, CHR 0x98] @ '' Practice mindfulness for a minute'',
     [CHR 0xE2, CHR 0x98, CHR 0x95] @ '' Make a healthy snack'',
     [CHR 0xF0, CHR 0x9F, CHR 0x93, CHR 0xB1] @ '' Check in with a friend'',
     [CHR 0xF0, CHR 0x9F, CHR 0x8E, CHR 0xB5] @ '' Listen to your favorite song'']"

text \<open>
  \<open>toDateString\<close> names the calendar day of an instant in local time. The rules of the
  time zone are a parameter: \<open>zone t\<close> is the offset of local time from UTC at the instant
  \<open>t\<close>, in milliseconds, which daylight saving time changes twice a year. The day is the
  number of whole days of local time since the epoch, and two instants have the same text
  exactly when they have the same day number.
\<close>

definition toDateString :: "(int \<Rightarrow> int) \<Rightarrow> int \<Rightarrow> int" where
  "toDateString zone t = (t + zone t) div 86400000"

text \<open>
  Two zones: one at a fixed offset, and America/New_York between November 2022 and March
  2024, which is five hours behind UTC except from 12 March 2023, 07:00 UTC, to 5 November
  2023, 06:00 UTC, when it is four hours behind.
\<close>

definition fixedZone :: "int \<Rightarrow> int \<Rightarrow> int" where
  "fixedZone tz t = tz"

definition newYork :: "int \<Rightarrow> int" where
  "newYork t = (if 1678604400000 \<le> t \<and> t < 1699164000000 then - 14400000 else - 18000000)"

text \<open>
  \<open>handleTimerComplete\<close> reads \<open>timerState\<close>, \<open>stats\<close>, \<open>currentSession\<close> and the settings of
  the render \<open>r\<close> in which the interval was started. \<open>now\<close> is the reading of the clock and
  \<open>pick\<close> the index \<open>Math.floor(Math.random() * breakSuggestions.length)\<close>. The tone and
  the desktop notification change no state and are left out. In JavaScript \<open>n % 0\<close> is
  \<open>NaN\<close>, which is not \<open>0\<close>.
\<close>

definition handleTimerComplete ::
    "(int \<Rightarrow> int) \<Rightarrow> Settings \<Rightarrow> Pomodoro \<Rightarrow> int \<Rightarrow> nat \<Rightarrow> Pomodoro \<Rightarrow> Pomodoro" where
  "handleTimerComplete zone settings r now pick s =
     (if timerState r = Work
      then (let newCompletedSessions = completedSessions (stats r) + 1;
                newTotalFocusTime = totalFocusTime (stats r) + pomodoroWork settings;
                today = toDateString zone now;
                lastSession = map_option (toDateString zone) (lastSessionDate (stats r));
                newStreakDays =
                  (if lastSession = Some today then streakDays (stats r)
                   else if lastSession = Some (toDateString zone (now - 86400000))
                   then streakDays (stats r) + 1
                   else 1);
                s1 = s\<lparr>stats := updatePomodoroStats
                                    \<lparr>p_completedSessions = Some newCompletedSessions,
                                     p_totalFocusTime = Some newTotalFocusTime,
                                     p_streakDays = Some newStreakDays,
                                     p_lastSessionDate = Some now\<rparr> (stats s)\<rparr>;
                isLongBreak = (sessionsUntilLongBreak settings \<noteq> 0
                               \<and> currentSession r mod sessionsUntilLongBreak settings = 0);
                s2 = s1\<lparr>timerState := (if isLongBreak then LongBreak else Break)\<rparr>;
                s3 = s2\<lparr>timeLeft := (if isLongBreak then longBreak settings * 60
                                        else pomodoroBreak settings * 60)\<rparr>;
                s4 = s3\<lparr>currentSuggestion := breakSuggestions ! pick\<rparr>;
                s5 = s4\<lparr>showBreakSuggestion := True\<rparr>
            in s5\<lparr>currentSession := currentSession s5 + 1\<rparr>)
      else s\<lparr>timerState := Work, timeLeft := pomodoroWork settings * 60,
              showBreakSuggestion := False\<rparr>)"

definition startTimer :: "Settings \<Rightarrow> Pomodoro \<Rightarrow> Pomodoro \<Rightarrow> Pomodoro" where
  "startTimer settings r s =
     (if timerState r = Idle
      then s\<lparr>timerState := Work, timeLeft := pomodoroWork settings * 60\<rparr>
      else if timerState r = Paused
      then (let wasInBreak =
                  (timeLeft r \<le> max (pomodoroBreak settings) (longBreak settings) * 60)
            in s\<lparr>timerState := (if wasInBreak then Break else Work)\<rparr>)
      else s)"

definition pauseTimer :: "Pomodoro \<Rightarrow> Pomodoro" where
  "pauseTimer s = s\<lparr>timerState := Paused\<rparr>"

definition resetTimer :: "Settings \<Rightarrow> Pomodoro \<Rightarrow> Pomodoro" where
  "resetTimer settings s =
     s\<lparr>timerState := Idle, timeLeft := pomodoroWork settings * 60, currentSession := 1,
       showBreakSuggestion := False\<rparr>"

text \<open>
  One firing of the interval, which runs while the state is \<open>work\<close>, \<open>break\<close> or
  \<open>longBreak\<close>: the updater returns \<open>0\<close> and the \<open>setTimeLeft\<close> that
  \<open>handleTimerComplete\<close> queued from inside it is applied after it.
\<close>

definition tick :: "(int \<Rightarrow> int) \<Rightarrow> Settings \<Rightarrow> Pomodoro \<Rightarrow> int \<Rightarrow> nat \<Rightarrow> Pomodoro \<Rightarrow> Pomodoro" where
  "tick zone settings r now pick s =
     (if timeLeft s \<le> 1 then handleTimerComplete zone settings r now pick (s\<lparr>timeLeft := 0\<rparr>)
      else s\<lparr>timeLeft := timeLeft s - 1\<rparr>)"

section \<open>The flashcard deck\<close>

text \<open>
  The \<open>useState\<close> cells of \<open>FlashcardDeck\<close>. A render of the component is one value of this
  record, and a handler is a closure of a render. The two swipe directions are capitalised.
\<close>

record QuizScore =
  correct :: nat
  incorrect :: nat

datatype direction = Left | Right

record Deck =
  currentIndex :: nat
  isFlipped :: bool
  showAnswer :: bool
  quizScore :: QuizScore
  displayCards :: "Flashcard list"
  autoAdvanceTimer :: "nat option"
  isCompleted :: bool
  swipeDirection :: "direction option"

definition initialDeck :: Deck where
  "initialDeck = \<lparr>currentIndex = 0, isFlipped = False, showAnswer = False,
                   quizScore = \<lparr>correct = 0, incorrect = 0\<rparr>, displayCards = [],
                   autoAdvanceTimer = None, isCompleted = False, swipeDirection = None\<rparr>"

text \<open>
  A callback handed to \<open>setTimeout\<close> keeps the closure of the render that created it:
  the one of \<open>markAnswer\<close> calls that render's \<open>nextCard\<close>, and those of \<open>handleSwipe\<close> call
  its \<open>previousCard\<close> or \<open>nextCard\<close> and then clear the swipe direction.
\<close>

datatype Timeout = AdvanceLater Deck | SwipedRight Deck | SwipedLeft Deck

text \<open>
  The deck together with what its handlers reach: the timeouts that are pending in the
  browser, each under the handle that \<open>setTimeout\<close> returned (a positive number), the next
  free handle, and the state of \<open>App\<close>, which \<open>onUpdateCard\<close> updates.
\<close>

record Session =
  deck :: Deck
  timeouts :: "(nat \<times> Timeout) list"
  nextHandle :: nat
  shell :: App

definition setTimeout :: "Timeout \<Rightarrow> Session \<Rightarrow> Session" where
  "setTimeout cb s = s\<lparr>timeouts := timeouts s @ [(nextHandle s, cb)],
                       nextHandle := nextHandle s + 1\<rparr>"

definition clearTimeout :: "nat \<Rightarrow> Session \<Rightarrow> Session" where
  "clearTimeout h s = s\<lparr>timeouts := filter (\<lambda>(k, cb). k \<noteq> h) (timeouts s)\<rparr>"

definition currentCard :: "Deck \<Rightarrow> Flashcard option" where
  \<comment> \<open>\<open>displayCards[currentIndex]\<close>, which is \<open>undefined\<close> out of range\<close>
  "currentCard d =
     (if currentIndex d < length (displayCards d) then Some (displayCards d ! currentIndex d)
      else None)"

text \<open>
  The sort with the comparator \<open>() => Math.random() - 0.5\<close> returns the cards in an order
  that depends on the random draws and on the engine's sorting algorithm; it is a
  permutation of the cards. The draws \<open>rs\<close> choose it here: each draw picks the next card
  among those that remain.
\<close>

fun shuffle :: "nat list \<Rightarrow> 'a list \<Rightarrow> 'a list" where
  "shuffle rs [] = []"
| "shuffle [] xs = xs"
| "shuffle (r # rs) xs =
     (let i = r mod length xs in xs ! i # shuffle rs (take i xs @ drop (Suc i) xs))"

text \<open>
  The effect with the dependencies \<open>[flashcards, settings.shuffleCards]\<close>. It runs after
  the first render and whenever the \<open>flashcards\<close> prop is another array than before, which
  it is after every render of \<open>App\<close>, since \<open>App\<close> filters its flashcards anew each time.
\<close>

definition shuffleEffect :: "Settings \<Rightarrow> Flashcard list \<Rightarrow> nat list \<Rightarrow> Session \<Rightarrow> Session" where
  "shuffleEffect settings flashcardsProp rs s =
     s\<lparr>deck := (deck s)\<lparr>displayCards := (if shuffleCards settings then shuffle rs flashcardsProp
                                           else flashcardsProp),
                         currentIndex := 0, isFlipped := False, showAnswer := False,
                         isCompleted := False,
                         quizScore := \<lparr>correct = 0, incorrect = 0\<rparr>\<rparr>\<rparr>"

definition clearAutoAdvance :: "Deck \<Rightarrow> Session \<Rightarrow> Session" where
  \<comment> \<open>\<open>if (autoAdvanceTimer) { clearTimeout(autoAdvanceTimer); setAutoAdvanceTimer(null); }\<close>\<close>
  "clearAutoAdvance r s =
     (case autoAdvanceTimer r of
        None \<Rightarrow> s
      | Some h \<Rightarrow> (let s1 = clearTimeout h s in s1\<lparr>deck := (deck s1)\<lparr>autoAdvanceTimer := None\<rparr>\<rparr>))"

definition handleFlip :: "Deck \<Rightarrow> Session \<Rightarrow> Session" where
  "handleFlip r s =
     (let s1 = clearAutoAdvance r s
      in s1\<lparr>deck := (deck s1)\<lparr>isFlipped := \<not> isFlipped r, showAnswer := \<not> showAnswer r\<rparr>\<rparr>)"

definition nextCard :: "Deck \<Rightarrow> Session \<Rightarrow> Session" where
  "nextCard r s =
     (let s1 = clearAutoAdvance r s
      in if int (currentIndex r) < int (length (displayCards r)) - 1
         then s1\<lparr>deck := (deck s1)\<lparr>currentIndex := currentIndex r + 1, isFlipped := False,
                                    showAnswer := False\<rparr>\<rparr>
         else s1\<lparr>deck := (deck s1)\<lparr>isCompleted := True\<rparr>\<rparr>)"

definition previousCard :: "Deck \<Rightarrow> Session \<Rightarrow> Session" where
  "previousCard r s =
     (let s1 = clearAutoAdvance r s
      in if currentIndex r > 0
         then s1\<lparr>deck := (deck s1)\<lparr>currentIndex := currentIndex r - 1, isFlipped := False,
                                    showAnswer := False, isCompleted := False\<rparr>\<rparr>
         else s1)"

definition orZero :: "nat option \<Rightarrow> nat" where
  \<comment> \<open>\<open>currentCard.correctCount || 0\<close>\<close>
  "orZero n = (case n of None \<Rightarrow> 0 | Some v \<Rightarrow> v)"

definition markAnswer :: "Deck \<Rightarrow> nat \<Rightarrow> bool \<Rightarrow> Session \<Rightarrow> Session" where
  "markAnswer r now judged s =
     (case currentCard r of
        None \<Rightarrow> s
      | Some cur \<Rightarrow>
          (let updatedCard =
                 cur\<lparr>correctCount := Some (orZero (correctCount cur) + (if judged then 1 else 0)),
                     incorrectCount := Some (orZero (incorrectCount cur) + (if judged then 0 else 1)),
                     lastReviewed := Some now\<rparr>;
               s1 = s\<lparr>shell := updateFlashcard updatedCard (shell s)\<rparr>;
               s2 = s1\<lparr>deck := (deck s1)\<lparr>quizScore :=
                         \<lparr>correct = correct (quizScore (deck s1)) + (if judged then 1 else 0),
                          incorrect = incorrect (quizScore (deck s1)) + (if judged then 0 else 1)\<rparr>\<rparr>\<rparr>
           in setTimeout (AdvanceLater r) s2))"

definition resetQuiz :: "Deck \<Rightarrow> Session \<Rightarrow> Session" where
  "resetQuiz r s =
     (let s1 = clearAutoAdvance r s
      in s1\<lparr>deck := (deck s1)\<lparr>currentIndex := 0, isFlipped := False, showAnswer := False,
                                 quizScore := \<lparr>correct = 0, incorrect = 0\<rparr>,
                                 isCompleted := False\<rparr>\<rparr>)"

definition restartDeck :: "Deck \<Rightarrow> Session \<Rightarrow> Session" where
  "restartDeck r s = resetQuiz r s"

definition shuffleAndRestart ::
    "Settings \<Rightarrow> Flashcard list \<Rightarrow> nat list \<Rightarrow> Deck \<Rightarrow> Session \<Rightarrow> Session" where
  \<comment> \<open>the \<open>onClick\<close> of the button \<open>Shuffle & Restart\<close>\<close>
  "shuffleAndRestart settings flashcardsProp rs r s =
     (let s1 = (if shuffleCards settings
                then s\<lparr>deck := (deck s)\<lparr>displayCards := shuffle rs flashcardsProp\<rparr>\<rparr>
                else s)
      in restartDeck r s1)"

definition handleTap :: "Deck \<Rightarrow> Session \<Rightarrow> Session" where
  "handleTap r s = (if \<not> showAnswer r then handleFlip r s else s)"

definition handleSwipe :: "Settings \<Rightarrow> Deck \<Rightarrow> rat \<Rightarrow> rat \<Rightarrow> Session \<Rightarrow> Session" where
  "handleSwipe settings r offset_x velocity_x s =
     (if \<not> swipeEnabled settings then s
      else if \<bar>offset_x\<bar> > 100 \<or> \<bar>velocity_x\<bar> > 500
      then (if offset_x > 0
            then setTimeout (SwipedRight r) (s\<lparr>deck := (deck s)\<lparr>swipeDirection := Some Right\<rparr>\<rparr>)
            else setTimeout (SwipedLeft r) (s\<lparr>deck := (deck s)\<lparr>swipeDirection := Some Left\<rparr>\<rparr>))
      else s)"

definition handleKeyPress :: "bool \<Rightarrow> bool \<Rightarrow> Deck \<Rightarrow> nat \<Rightarrow> string \<Rightarrow> Session \<Rightarrow> Session" where
  "handleKeyPress isTypingInInput isQuizMode r now key s =
     (if isTypingInInput then s
      else if key = '' ''
      then (if \<not> showAnswer r then handleFlip r s
            else if showAnswer r \<and> isFlipped r then nextCard r s
            else s)
      else if key = ''ArrowRight'' then nextCard r s
      else if key = ''ArrowLeft'' then previousCard r s
      else if key = ''1'' then (if isQuizMode \<and> showAnswer r then markAnswer r now False s else s)
      else if key = ''2'' then (if isQuizMode \<and> showAnswer r then markAnswer r now True s else s)
      else if key = ''r'' \<or> key = ''R'' then resetQuiz r s
      else s)"

text \<open>
  A pending timeout fires: it leaves the list of pending timeouts and its callback runs
  with the closure it kept. Firing a handle that is not pending does nothing.
\<close>

definition fire :: "nat \<Rightarrow> Session \<Rightarrow> Session" where
  "fire h s =
     (case map_of (timeouts s) h of
        None \<Rightarrow> s
      | Some cb \<Rightarrow>
          (let s1 = clearTimeout h s
           in case cb of
                AdvanceLater r \<Rightarrow> nextCard r s1
              | SwipedRight r \<Rightarrow>
                  (let s2 = previousCard r s1 in s2\<lparr>deck := (deck s2)\<lparr>swipeDirection := None\<rparr>\<rparr>)
              | SwipedLeft r \<Rightarrow>
                  (let s2 = nextCard r s1 in s2\<lparr>deck := (deck s2)\<lparr>swipeDirection := None\<rparr>\<rparr>)))"

text \<open>The three ways to restart from the completion screen or the deck.\<close>

datatype Restart = StudyAgain | ShuffleRestart | PressR

definition restart ::
    "Restart \<Rightarrow> Settings \<Rightarrow> Flashcard list \<Rightarrow> nat list \<Rightarrow> Session \<Rightarrow> Session" where
  "restart how settings flashcardsProp rs s =
     (case how of
        StudyAgain \<Rightarrow> restartDeck (deck s) s
      | ShuffleRestart \<Rightarrow> shuffleAndRestart settings flashcardsProp rs (deck s) s
      | PressR \<Rightarrow> handleKeyPress False False (deck s) 0 ''r'' s)"


text \<open>
  What the effect establishes and every restart keeps: with the shuffle setting off the
  cards are displayed in the order of the \<open>flashcards\<close> prop, with the setting on in some
  permutation of it.
\<close>

definition synced :: "Settings \<Rightarrow> Flashcard list \<Rightarrow> Deck \<Rightarrow> bool" where
  "synced settings flashcardsProp d =
     (if shuffleCards settings then mset (displayCards d) = mset flashcardsProp
      else displayCards d = flashcardsProp)"

subsection \<open>The accuracy on the completion screen\<close>







subsection \<open>Example data\<close>

text \<open>
  Two topics with three cards, and a state in which two cards of one topic carry the same
  identifier; the concrete instances below are evaluated on them.
\<close>

definition mkTopic :: "string \<Rightarrow> string \<Rightarrow> Topic" where
  "mkTopic i n = \<lparr>topic_id = i, name = n, color = ''#2563EB'', icon = ''T'',
                  createdAt = 0, isPublic = None\<rparr>"

definition mkCard :: "string \<Rightarrow> string \<Rightarrow> string \<Rightarrow> Flashcard" where
  "mkCard i q subj = \<lparr>card_id = i, question = q, answer = ''yes'', subject = subj,
                      difficulty = None, lastReviewed = None, correctCount = None,
                      incorrectCount = None\<rparr>"

definition mathApp :: App where
  "mathApp = \<lparr>topics = [mkTopic ''1'' ''Math'', mkTopic ''2'' ''Art''],
              flashcards = [mkCard ''10'' ''p'' ''Math'', mkCard ''11'' ''q'' ''Art'',
                            mkCard ''12'' ''r'' ''Math''],
              activeTopic = Some ''1'', console = []\<rparr>"

definition paddedName :: string where
  \<comment> \<open>a no-break space, a space, \<open>Maths\<close> and a space\<close>
  "paddedName = [CHR 0xC2, CHR 0xA0] @ '' Maths ''"

definition dupApp :: App where
  "dupApp = \<lparr>topics = [mkTopic ''1'' ''Math''],
             flashcards = [mkCard ''10'' ''p'' ''Math'', mkCard ''10'' ''q'' ''Math''],
             activeTopic = Some ''1'', console = []\<rparr>"

text \<open>
  Two payloads of a share link, the random suffixes of an import, the state after
  \<open>addTopic\<close> at one reading of the clock, and the local storage that holds the example data.
\<close>

definition physics :: SharedData where
  "physics = \<lparr>shared_topic = (mkTopic [] ''Physics'')\<lparr>isPublic := Some True\<rparr>,
              shared_flashcards = [mkCard [] ''F?'' ''Physics'', mkCard [] ''E?'' ''Physics'']\<rparr>"

definition mathShared :: SharedData where
  "mathShared = \<lparr>shared_topic = (mkTopic [] ''Math'')\<lparr>isPublic := Some True\<rparr>,
                 shared_flashcards = [mkCard [] ''2+2?'' ''Math'']\<rparr>"

definition suffixes :: "nat \<Rightarrow> string" where
  "suffixes k = (if k = 0 then ''k3j9x0a1b'' else ''zz91mmc0q'')"

definition clashApp :: App where
  "clashApp = snd (addTopic 1700000000000 (mkTopic [] ''Art'') firstRender)"

definition mathStorage :: Storage where
  "mathStorage = \<lparr>savedTopics = Some (topics mathApp),
                  savedFlashcards = Some (flashcards mathApp),
                  savedActiveTopic = Some ''1''\<rparr>"

text \<open>
  Two share links in the form that \<open>generateShareUrl\<close> gives them, the base64 text of a
  JSON text of the payload, in which every card has the empty identifier, and a
  \<open>JSON.parse\<close> that knows these two texts; a local storage whose identifiers were made by
  \<open>addTopic\<close>, \<open>addFlashcard\<close> and an earlier import; and the local storage after
  \<open>addTopic\<close> at one reading of the clock.
\<close>

definition physicsText :: string where
  \<open>physicsText =
       ''{"topic":{"id":"","name":"Physics","color":"#2563EB","icon":"T","createdAt":''
       @ ''0,"isPublic":true},"flashcards":[{"id":"","question":"F?","answer":"yes","su''
       @ ''bject":"Physics"},{"id":"","question":"E?","answer":"yes","subject":"Physics''
       @ ''"}]}''\<close>

definition physicsLink :: string where
  \<open>physicsLink =
       ''eyJ0b3BpYyI6eyJpZCI6IiIsIm5hbWUiOiJQaHlzaWNzIiwiY29sb3IiOiIjMjU2M0VCIiwiaWNv''
       @ ''biI6IlQiLCJjcmVhdGVkQXQiOjAsImlzUHVibGljIjp0cnVlfSwiZmxhc2hjYXJkcyI6W3siaWQi''
       @ ''OiIiLCJxdWVzdGlvbiI6IkY/IiwiYW5zd2VyIjoieWVzIiwic3ViamVjdCI6IlBoeXNpY3MifSx7''
       @ ''ImlkIjoiIiwicXVlc3Rpb24iOiJFPyIsImFuc3dlciI6InllcyIsInN1YmplY3QiOiJQaHlzaWNz''
       @ ''In1dfQ==''\<close>

definition mathText :: string where
  \<open>mathText =
       ''{"topic":{"id":"","name":"Math","color":"#2563EB","icon":"T","createdAt":0,"''
       @ ''isPublic":true},"flashcards":[{"id":"","question":"2+2?","answer":"yes","sub''
       @ ''ject":"Math"}]}''\<close>

definition mathLink :: string where
  \<open>mathLink =
       ''eyJ0b3BpYyI6eyJpZCI6IiIsIm5hbWUiOiJNYXRoIiwiY29sb3IiOiIjMjU2M0VCIiwiaWNvbiI6''
       @ ''IlQiLCJjcmVhdGVkQXQiOjAsImlzUHVibGljIjp0cnVlfSwiZmxhc2hjYXJkcyI6W3siaWQiOiIi''
       @ ''LCJxdWVzdGlvbiI6IjIrMj8iLCJhbnN3ZXIiOiJ5ZXMiLCJzdWJqZWN0IjoiTWF0aCJ9XX0=''\<close>

definition exampleParse :: "string \<Rightarrow> SharedData option" where
  "exampleParse text =
     (if text = physicsText then Some physics
      else if text = mathText then Some mathShared
      else None)"

definition savedStorage :: Storage where
  "savedStorage = \<lparr>savedTopics = Some [mkTopic ''1699990000000'' ''Math'',
                                         mkTopic ''1699990050000'' ''Art''],
                   savedFlashcards = Some [mkCard ''1699990001000'' ''p'' ''Math'',
                                           mkCard ''1699990060000zz91mmc0q'' ''q'' ''Art''],
                   savedActiveTopic = Some ''1699990000000''\<rparr>"

definition clashStorage :: Storage where
  "clashStorage = \<lparr>savedTopics = Some (topics clashApp),
                   savedFlashcards = Some (flashcards clashApp),
                   savedActiveTopic = activeTopic clashApp\<rparr>"

text \<open>
  Timers: a work phase about to end, with the last session on the day before, once at a
  fixed offset and once in New York on the night after the clocks went forward; a long
  break and a work phase with ten minutes left, both running.
\<close>

definition afterWork :: Pomodoro where
  "afterWork = \<lparr>stats = \<lparr>completedSessions = 3, totalFocusTime = 75, streakDays = 2,
                          lastSessionDate = Some 1699900000000\<rparr>,
                timeLeft = 1, timerState = Work, currentSession = 4,
                showBreakSuggestion = False, currentSuggestion = []\<rparr>"

definition afterSunday :: Pomodoro where
  \<comment> \<open>the last session was on Sunday 12 March 2023 at noon in New York\<close>
  "afterSunday = afterWork\<lparr>stats := (stats afterWork)\<lparr>lastSessionDate := Some 1678636800000\<rparr>\<rparr>"

definition longBreakRunning :: Pomodoro where
  "longBreakRunning = \<lparr>stats = \<lparr>completedSessions = 4, totalFocusTime = 100, streakDays = 1,
                                 lastSessionDate = Some 1700000000000\<rparr>,
                       timeLeft = 900, timerState = LongBreak, currentSession = 5,
                       showBreakSuggestion = True, currentSuggestion = breakSuggestions ! 0\<rparr>"

definition workRunning :: Pomodoro where
  "workRunning = \<lparr>stats = \<lparr>completedSessions = 0, totalFocusTime = 0, streakDays = 0,
                            lastSessionDate = None\<rparr>,
                  timeLeft = 600, timerState = Work, currentSession = 1,
                  showBreakSuggestion = False, currentSuggestion = []\<rparr>"

text \<open>
  A deck of three cards: at its start, at its last card with one correct and two incorrect
  answers, and with the answer of the first card shown. Then the first card is judged;
  \<open>onUpdateCard\<close> has changed the state of \<open>App\<close>, so \<open>App\<close> renders and the effect of the
  deck runs on the new prop; the user moves on before the second has passed and reveals
  the second card; and the timeout of the judgment fires.
\<close>

definition threeCards :: "Flashcard list" where
  "threeCards = [mkCard ''10'' ''p'' ''Math'', mkCard ''12'' ''r'' ''Math'',
                 mkCard ''13'' ''s'' ''Math'']"

definition shuffleOn :: Settings where
  "shuffleOn = initialSettings\<lparr>shuffleCards := True\<rparr>"

definition studyApp :: App where
  "studyApp = \<lparr>topics = [mkTopic ''1'' ''Math''], flashcards = threeCards,
               activeTopic = Some ''1'', console = []\<rparr>"

definition studying :: Session where
  "studying = \<lparr>deck = initialDeck\<lparr>displayCards := threeCards\<rparr>, timeouts = [],
                nextHandle = 1, shell = studyApp\<rparr>"

definition atLastCard :: Session where
  "atLastCard = studying\<lparr>deck := (deck studying)\<lparr>currentIndex := 2,
                    quizScore := \<lparr>correct = 1, incorrect = 2\<rparr>\<rparr>\<rparr>"

definition answerShown :: Session where
  "answerShown = studying\<lparr>deck := (deck studying)\<lparr>isFlipped := True, showAnswer := True\<rparr>\<rparr>"

definition judgedFirst :: Session where
  "judgedFirst = markAnswer (deck answerShown) 1700000000000 True answerShown"

definition rerendered :: Session where
  "rerendered = shuffleEffect initialSettings (activeFlashcards (shell judgedFirst)) [] judgedFirst"

definition movedOn :: Session where
  "movedOn = nextCard (deck rerendered) rerendered"

definition revealedSecond :: Session where
  "revealedSecond = handleFlip (deck movedOn) movedOn"

definition afterTimeout :: Session where
  "afterTimeout = fire 1 revealedSecond"












text \<open>
  Handlers of renders that are out of date. Under \<open>App\<close>, in quiz mode, a topic of two
  cards: the Flip button is pressed twice, so the key handler is the one of a render that
  displays both cards; then the card on display is deleted, \<open>App\<close> renders and the effect
  of the deck displays the one card that is left. The index and the two flags are as before,
  so the key effect does not run again.
\<close>

definition pairApp :: App where
  "pairApp = studyApp\<lparr>flashcards := [mkCard ''10'' ''p'' ''Math'', mkCard ''12'' ''r'' ''Math'']\<rparr>"

definition pairStudy :: Session where
  "pairStudy = \<lparr>deck = initialDeck\<lparr>displayCards := flashcards pairApp\<rparr>, timeouts = [],
                 nextHandle = 1, shell = pairApp\<rparr>"

definition peeked :: Session where
  "peeked = handleFlip (deck (handleFlip (deck pairStudy) pairStudy))
                       (handleFlip (deck pairStudy) pairStudy)"

definition oneLeft :: Session where
  "oneLeft = shuffleEffect initialSettings (activeFlashcards (deleteFlashcard ''10'' (shell peeked)))
               [] (peeked\<lparr>shell := deleteFlashcard ''10'' (shell peeked)\<rparr>)"

declare toString.simps [simp del] trimStart.simps [simp del] trimEnd.simps [simp del]

section \<open>Deleting a topic\<close>

lemma deleteTopic_found:
  assumes "find (\<lambda>t. topic_id t = topicId) (topics s) = Some t"
  shows "topics (deleteTopic s topicId s) = filter (\<lambda>u. topic_id u \<noteq> topicId) (topics s)"
    and "flashcards (deleteTopic s topicId s) =
           filter (\<lambda>card. subject card \<noteq> name t) (flashcards s)"
    and "activeTopic (deleteTopic s topicId s) =
           (if activeTopic s = Some topicId
            then (case filter (\<lambda>u. topic_id u \<noteq> topicId) (topics s) of
                    [] \<Rightarrow> None | u # _ \<Rightarrow> Some (topic_id u))
            else activeTopic s)"
  using assms by (simp_all add: deleteTopic_def Let_def)

text \<open>
  C5. For every state and every identifier of an existing topic (\<open>t\<close> is the topic that
  \<open>find\<close> returns for it), \<open>deleteTopic\<close> leaves no topic with that identifier, keeps
  exactly the flashcards whose subject differs from the name of \<open>t\<close>, in their order, and,
  when the deleted topic was the active one, makes the active topic the identifier of a
  remaining topic, or nothing when no topic remains; otherwise the active topic is kept.
\<close>

theorem deleteTopic_cascade:
  assumes "find (\<lambda>t. topic_id t = topicId) (topics s) = Some t"
  shows "topicId \<notin> topic_id ` set (topics (deleteTopic s topicId s))
       \<and> set (topics (deleteTopic s topicId s)) = {u \<in> set (topics s). topic_id u \<noteq> topicId}
       \<and> flashcards (deleteTopic s topicId s)
            = filter (\<lambda>card. subject card \<noteq> name t) (flashcards s)
       \<and> set (flashcards (deleteTopic s topicId s))
            = {card \<in> set (flashcards s). subject card \<noteq> name t}
       \<and> (if activeTopic s = Some topicId
          then (if topics (deleteTopic s topicId s) = []
                then activeTopic (deleteTopic s topicId s) = None
                else \<exists>u \<in> set (topics (deleteTopic s topicId s)).
                       activeTopic (deleteTopic s topicId s) = Some (topic_id u))
          else activeTopic (deleteTopic s topicId s) = activeTopic s)"
proof -
  let ?s' = "deleteTopic s topicId s"
  let ?rem = "filter (\<lambda>u. topic_id u \<noteq> topicId) (topics s)"
  note eqs = deleteTopic_found [OF assms]
  have t1: "topicId \<notin> topic_id ` set (topics ?s')"
    by (auto simp: eqs(1))
  have t2: "set (topics ?s') = {u \<in> set (topics s). topic_id u \<noteq> topicId}"
    by (simp add: eqs(1))
  have c2: "set (flashcards ?s') = {card \<in> set (flashcards s). subject card \<noteq> name t}"
    by (simp add: eqs(2))
  have a: "if activeTopic s = Some topicId
          then (if topics ?s' = [] then activeTopic ?s' = None
                else \<exists>u \<in> set (topics ?s'). activeTopic ?s' = Some (topic_id u))
          else activeTopic ?s' = activeTopic s"
  proof (cases ?rem)
    case Nil
    then show ?thesis by (simp add: eqs(1,3))
  next
    case (Cons u us)
    then show ?thesis by (auto simp: eqs(1,3))
  qed
  from t1 t2 eqs(2) c2 a show ?thesis by blast
qed

theorem deleteTopic_cascade_witness:
  "find (\<lambda>t. topic_id t = ''1'') (topics mathApp) = Some (mkTopic ''1'' ''Math'')
   \<and> topics (deleteTopic mathApp ''1'' mathApp) = [mkTopic ''2'' ''Art'']
   \<and> flashcards (deleteTopic mathApp ''1'' mathApp) = [mkCard ''11'' ''q'' ''Art'']
   \<and> activeTopic (deleteTopic mathApp ''1'' mathApp) = Some ''2''"
proof -
  have f: "find (\<lambda>t. topic_id t = ''1'') (topics mathApp) = Some (mkTopic ''1'' ''Math'')"
    by (simp add: mathApp_def mkTopic_def)
  show ?thesis
    using deleteTopic_cascade [OF f] f
    by (simp add: mathApp_def mkTopic_def mkCard_def deleteTopic_def)
qed

section \<open>Adding a flashcard\<close>

lemma addFlashcard_new:
  assumes "find (\<lambda>t. name t = subject newCard) (topics s) = None"
  shows "topics (addFlashcard s now newCard s) =
           topics s @ [\<lparr>topic_id = toString now, name = subject newCard,
                        color = defaultColors ! (length (topics s) mod length defaultColors),
                        icon = defaultIcons ! (length (topics s) mod length defaultIcons),
                        createdAt = now, isPublic = None\<rparr>]"
    and "activeTopic (addFlashcard s now newCard s) = Some (toString now)"
  using assms by (simp_all add: addFlashcard_def addTopic_def Let_def)

lemma addFlashcard_cards:
  "flashcards (addFlashcard s now newCard s) =
     flashcards s @ [newCard\<lparr>card_id := toString now, correctCount := Some 0,
                          incorrectCount := Some 0, lastReviewed := Some now\<rparr>]"
  by (simp add: addFlashcard_def addTopic_def Let_def)

lemma addFlashcard_old:
  assumes "find (\<lambda>t. name t = subject newCard) (topics s) \<noteq> None"
  shows "topics (addFlashcard s now newCard s) = topics s"
    and "activeTopic (addFlashcard s now newCard s) = activeTopic s"
proof -
  from assms obtain t where "find (\<lambda>t. name t = subject newCard) (topics s) = Some t"
    by blast
  then show "topics (addFlashcard s now newCard s) = topics s"
    and "activeTopic (addFlashcard s now newCard s) = activeTopic s"
    by (simp_all add: addFlashcard_def Let_def)
qed

text \<open>
  C10. For every state: when no topic has the subject of the added card as its name,
  \<open>addFlashcard\<close> appends exactly one topic, whose name is that subject and whose colour
  and icon are the entries of \<open>defaultColors\<close> and \<open>defaultIcons\<close> at the number of topics
  modulo the lengths of the lists, and the active topic becomes the identifier of the new
  topic; when a topic with that name exists, the list of topics is unchanged. In both cases
  the new card is the last flashcard and its subject is the name of some topic.
\<close>

theorem addFlashcard_topic:
  "(subject newCard \<notin> name ` set (topics s) \<longrightarrow>
      topics (addFlashcard s now newCard s) =
        topics s @ [\<lparr>topic_id = toString now, name = subject newCard,
                     color = defaultColors ! (length (topics s) mod length defaultColors),
                     icon = defaultIcons ! (length (topics s) mod length defaultIcons),
                     createdAt = now, isPublic = None\<rparr>]
      \<and> activeTopic (addFlashcard s now newCard s) = Some (toString now))
   \<and> (subject newCard \<in> name ` set (topics s) \<longrightarrow>
        topics (addFlashcard s now newCard s) = topics s)
   \<and> subject (last (flashcards (addFlashcard s now newCard s))) = subject newCard
   \<and> subject newCard \<in> name ` set (topics (addFlashcard s now newCard s))"
proof -
  have absent: "find (\<lambda>t. name t = subject newCard) (topics s) = None"
    if "subject newCard \<notin> name ` set (topics s)"
    using that by (force simp: find_None_iff)
  have present: "find (\<lambda>t. name t = subject newCard) (topics s) \<noteq> None"
    if "subject newCard \<in> name ` set (topics s)"
    using that by (auto simp: find_None_iff)
  have 1: "subject newCard \<notin> name ` set (topics s) \<longrightarrow>
      topics (addFlashcard s now newCard s) =
        topics s @ [\<lparr>topic_id = toString now, name = subject newCard,
                     color = defaultColors ! (length (topics s) mod length defaultColors),
                     icon = defaultIcons ! (length (topics s) mod length defaultIcons),
                     createdAt = now, isPublic = None\<rparr>]
      \<and> activeTopic (addFlashcard s now newCard s) = Some (toString now)"
    using addFlashcard_new [OF absent] by blast
  have 2: "subject newCard \<in> name ` set (topics s) \<longrightarrow>
        topics (addFlashcard s now newCard s) = topics s"
    using addFlashcard_old(1) [OF present] by blast
  have 3: "subject (last (flashcards (addFlashcard s now newCard s))) = subject newCard"
    by (simp add: addFlashcard_cards)
  have 4: "subject newCard \<in> name ` set (topics (addFlashcard s now newCard s))"
  proof (cases "subject newCard \<in> name ` set (topics s)")
    case True
    with 2 show ?thesis by simp
  next
    case False
    with 1 show ?thesis by simp
  qed
  from 1 2 3 4 show ?thesis by blast
qed

theorem addFlashcard_topic_witness:
  "''Chemistry'' \<notin> name ` set (topics mathApp)
   \<and> topics (addFlashcard mathApp 1700000000000 (mkCard [] ''H2O?'' ''Chemistry'') mathApp) =
       [mkTopic ''1'' ''Math'', mkTopic ''2'' ''Art'',
        \<lparr>topic_id = ''1700000000000'', name = ''Chemistry'', color = ''#FACC15'',
         icon = [CHR 0xF0, CHR 0x9F, CHR 0x92, CHR 0xA1], createdAt = 1700000000000,
         isPublic = None\<rparr>]
   \<and> activeTopic (addFlashcard mathApp 1700000000000 (mkCard [] ''H2O?'' ''Chemistry'') mathApp)
       = Some ''1700000000000''
   \<and> ''Math'' \<in> name ` set (topics mathApp)
   \<and> topics (addFlashcard mathApp 1700000000001 (mkCard [] ''1+1?'' ''Math'') mathApp)
       = topics mathApp"
  using addFlashcard_topic [of "mkCard [] ''H2O?'' ''Chemistry''" mathApp 1700000000000]
        addFlashcard_topic [of "mkCard [] ''1+1?'' ''Math''" mathApp 1700000000001]
  by (simp add: mathApp_def mkTopic_def mkCard_def defaultColors_def defaultIcons_def
        toString.simps digit_def)

section \<open>Renaming a topic\<close>

lemma renameCard_step:
  assumes d: "distinct (map card_id F)" and x: "x \<in> set F"
  shows "flashcards (renameCard nm x (s\<lparr>flashcards := map (\<lambda>c. if c \<in> D then c\<lparr>subject := nm\<rparr> else c) F\<rparr>))
       = map (\<lambda>c. if c \<in> insert x D then c\<lparr>subject := nm\<rparr> else c) F"
proof -
  have inj: "(card_id c = card_id x) = (c = x)" if "c \<in> set F" for c
    using d x that by (auto simp: distinct_map inj_on_def)
  show ?thesis
  proof (cases "subject x = nm")
    case True
    then have "x\<lparr>subject := nm\<rparr> = x" by simp
    then have "map (\<lambda>c. if c \<in> insert x D then c\<lparr>subject := nm\<rparr> else c) F
             = map (\<lambda>c. if c \<in> D then c\<lparr>subject := nm\<rparr> else c) F"
      by (intro map_cong) auto
    with True show ?thesis by (simp add: renameCard_def)
  next
    case False
    have "map (\<lambda>c. if card_id c = card_id x then x\<lparr>subject := nm\<rparr> else c)
            (map (\<lambda>c. if c \<in> D then c\<lparr>subject := nm\<rparr> else c) F)
        = map (\<lambda>c. if c \<in> insert x D then c\<lparr>subject := nm\<rparr> else c) F"
      unfolding map_map
    proof (rule map_cong [OF refl])
      fix c assume "c \<in> set F"
      from inj [OF this] show "((\<lambda>c. if card_id c = card_id x then x\<lparr>subject := nm\<rparr> else c) \<circ>
             (\<lambda>c. if c \<in> D then c\<lparr>subject := nm\<rparr> else c)) c
          = (if c \<in> insert x D then c\<lparr>subject := nm\<rparr> else c)"
        by (cases "c = x") simp_all
    qed
    with False show ?thesis
      by (simp add: renameCard_def updateFlashcard_def)
  qed
qed

lemma fold_renameCard:
  assumes d: "distinct (map card_id F)" and sub: "set xs \<subseteq> set F"
  shows "flashcards (fold (renameCard nm) xs (s\<lparr>flashcards := map (\<lambda>c. if c \<in> D then c\<lparr>subject := nm\<rparr> else c) F\<rparr>))
       = map (\<lambda>c. if c \<in> set xs \<union> D then c\<lparr>subject := nm\<rparr> else c) F"
  using sub
proof (induction xs arbitrary: s D)
  case Nil
  then show ?case by simp
next
  case (Cons x xs)
  have x: "x \<in> set F" using Cons.prems by simp
  let ?s0 = "s\<lparr>flashcards := map (\<lambda>c. if c \<in> D then c\<lparr>subject := nm\<rparr> else c) F\<rparr>"
  let ?s1 = "renameCard nm x ?s0"
  have "?s1 = ?s1\<lparr>flashcards := map (\<lambda>c. if c \<in> insert x D then c\<lparr>subject := nm\<rparr> else c) F\<rparr>"
    using renameCard_step [OF d x, where nm=nm and s=s and D=D] by simp
  then have "fold (renameCard nm) (x # xs) ?s0
        = fold (renameCard nm) xs (?s1\<lparr>flashcards := map (\<lambda>c. if c \<in> insert x D then c\<lparr>subject := nm\<rparr> else c) F\<rparr>)"
    by simp
  also have "flashcards \<dots> = map (\<lambda>c. if c \<in> set xs \<union> insert x D then c\<lparr>subject := nm\<rparr> else c) F"
    using Cons.IH [where s="?s1" and D="insert x D"] Cons.prems by simp
  finally show ?case by simp
qed

lemma renameCard_topics: "topics (renameCard nm x s) = topics s"
  by (simp add: renameCard_def updateFlashcard_def)

lemma fold_renameCard_topics: "topics (fold (renameCard nm) xs s) = topics s"
  by (induction xs arbitrary: s) (simp_all add: renameCard_topics)

lemma openEditTopicModal_Some:
  assumes "openEditTopicModal s editingTopicId = Some m"
  shows "find (\<lambda>t. topic_id t = editingTopicId) (topics s) = Some (topic m)"
    and "cards m = filter (\<lambda>c. subject c = name (topic m)) (flashcards s)"
    and "topic_id (topic m) = editingTopicId"
    and "topic m \<in> set (topics s)"
proof -
  from assms obtain t where t: "find (\<lambda>t. topic_id t = editingTopicId) (topics s) = Some t"
    by (auto simp: openEditTopicModal_def split: option.splits)
  with assms have m: "topic m = t" "cards m = filter (\<lambda>c. subject c = name t) (flashcards s)"
    by (auto simp: openEditTopicModal_def)
  from t m show "find (\<lambda>t. topic_id t = editingTopicId) (topics s) = Some (topic m)"
    and "cards m = filter (\<lambda>c. subject c = name (topic m)) (flashcards s)"
    by simp_all
  from t m show "topic_id (topic m) = editingTopicId" "topic m \<in> set (topics s)"
    by (auto simp: find_Some_iff)
qed

text \<open>
  Without any assumption on the identifiers: \<open>updateFlashcard\<close> keeps the identifier at
  every position, and a position holds its old card or a card with the new subject; once
  a card with another subject than the new one has been renamed, every position with its
  identifier holds the new subject.
\<close>

lemma renameCard_renamed:
  assumes "list_all2 (renamed nm D) F (flashcards s)" and "subject x \<noteq> nm"
  shows "list_all2 (renamed nm (insert x D)) F (flashcards (renameCard nm x s))"
proof -
  have "renamed nm (insert x D) c (if card_id c' = card_id x then x\<lparr>subject := nm\<rparr> else c')"
    if "renamed nm D c c'" for c c'
    using that by (auto simp: renamed_def)
  then have "list_all2 (renamed nm (insert x D)) F
               (map (\<lambda>c'. if card_id c' = card_id x then x\<lparr>subject := nm\<rparr> else c')
                    (flashcards s))"
    using assms(1) by (simp add: list_all2_map2 list_all2_mono)
  then show ?thesis
    using assms(2) by (simp add: renameCard_def updateFlashcard_def)
qed

lemma fold_renameCard_renamed:
  assumes "list_all2 (renamed nm D) F (flashcards s)" and "\<forall>x \<in> set xs. subject x \<noteq> nm"
  shows "list_all2 (renamed nm (set xs \<union> D)) F (flashcards (fold (renameCard nm) xs s))"
  using assms
proof (induction xs arbitrary: s D)
  case Nil
  then show ?case by simp
next
  case (Cons x xs)
  from Cons.prems have "list_all2 (renamed nm (insert x D)) F (flashcards (renameCard nm x s))"
    by (intro renameCard_renamed) simp_all
  from Cons.IH [OF this] Cons.prems(2) show ?case by simp
qed

lemma fold_renameCard_same:
  assumes "\<forall>x \<in> set xs. subject x = nm"
  shows "fold (renameCard nm) xs s = s"
  using assms by (induction xs arbitrary: s) (simp_all add: renameCard_def)

lemma renameCard_length: "length (flashcards (renameCard nm x s)) = length (flashcards s)"
  by (simp add: renameCard_def updateFlashcard_def)

lemma fold_renameCard_length:
  "length (flashcards (fold (renameCard nm) xs s)) = length (flashcards s)"
  by (induction xs arbitrary: s) (simp_all add: renameCard_length)

lemma rename_subjects_any_identifiers:
  assumes "k < length (flashcards s)" and "subject (flashcards s ! k) = old"
  shows "subject (flashcards (fold (renameCard nm)
                     (filter (\<lambda>c. subject c = old) (flashcards s)) s) ! k) = nm"
proof -
  let ?xs = "filter (\<lambda>c. subject c = old) (flashcards s)"
  let ?s' = "fold (renameCard nm) ?xs s"
  show ?thesis
  proof (cases "old = nm")
    case True
    then have "?s' = s" by (intro fold_renameCard_same) simp
    with assms True show ?thesis by simp
  next
    case False
    have "list_all2 (renamed nm {}) (flashcards s) (flashcards s)"
      by (simp add: list_all2_same renamed_def)
    moreover have "\<forall>x \<in> set ?xs. subject x \<noteq> nm" using False by simp
    ultimately have "list_all2 (renamed nm (set ?xs \<union> {})) (flashcards s) (flashcards ?s')"
      by (rule fold_renameCard_renamed)
    from this assms(1)
    have "renamed nm (set ?xs \<union> {}) (flashcards s ! k) (flashcards ?s' ! k)"
      by (rule list_all2_nthD)
    moreover have "flashcards s ! k \<in> set ?xs" using assms by simp
    ultimately show ?thesis
      by (auto simp: renamed_def)
  qed
qed

text \<open>
  C6, as amended. For the modal opened on an existing topic and a name that is not empty
  after \<open>trim\<close>, in every state: the flashcards stay as many, every position that held a
  card whose subject was the old name holds a card with the trimmed new name as its
  subject, and the topic gets the new name, colour and icon, so a topic with the edited
  identifier and the new name exists and no such card is orphaned. \<open>updateFlashcard\<close>
  replaces every card that has the identifier of the updated card; when the identifiers of
  the flashcards are pairwise distinct, the cards that had the old subject change in
  nothing but the subject and all other cards are unchanged.
\<close>

theorem rename_rewrites_subjects:
  assumes modal: "openEditTopicModal s editingTopicId = Some m"
      and nonempty: "trim newName \<noteq> []"
  shows "length (flashcards (handleSaveTopicDetails
                      (m\<lparr>topicName := newName, selectedColor := col, selectedIcon := ic\<rparr>) s))
           = length (flashcards s)
       \<and> (\<forall>k < length (flashcards s).
             subject (flashcards s ! k) = name (topic m) \<longrightarrow>
             subject (flashcards (handleSaveTopicDetails
                      (m\<lparr>topicName := newName, selectedColor := col, selectedIcon := ic\<rparr>) s) ! k)
               = trim newName)
       \<and> topics (handleSaveTopicDetails
                   (m\<lparr>topicName := newName, selectedColor := col, selectedIcon := ic\<rparr>) s)
           = map (\<lambda>t. if topic_id t = editingTopicId
                       then t\<lparr>name := trim newName, color := col, icon := ic\<rparr> else t)
                 (topics s)
       \<and> (\<exists>t \<in> set (topics (handleSaveTopicDetails
                   (m\<lparr>topicName := newName, selectedColor := col, selectedIcon := ic\<rparr>) s)).
             topic_id t = editingTopicId \<and> name t = trim newName)
       \<and> (distinct (map card_id (flashcards s)) \<longrightarrow>
            flashcards (handleSaveTopicDetails
                      (m\<lparr>topicName := newName, selectedColor := col, selectedIcon := ic\<rparr>) s)
              = map (\<lambda>c. if subject c = name (topic m) then c\<lparr>subject := trim newName\<rparr> else c)
                    (flashcards s))"
proof -
  let ?m = "m\<lparr>topicName := newName, selectedColor := col, selectedIcon := ic\<rparr>"
  let ?u = "\<lparr>u_topic_id = None, u_name = Some (trim newName), u_color = Some col,
             u_icon = Some ic, u_createdAt = None, u_isPublic = None\<rparr>"
  let ?s1 = "updateTopic editingTopicId ?u s"
  note m = openEditTopicModal_Some [OF modal]
  have save: "handleSaveTopicDetails ?m s = fold (renameCard (trim newName)) (cards m) ?s1"
    using nonempty by (simp add: handleSaveTopicDetails_def m(3))
  have f1: "flashcards ?s1 = flashcards s"
    by (simp add: updateTopic_def)
  have cm: "cards m = filter (\<lambda>c. subject c = name (topic m)) (flashcards ?s1)"
    by (simp add: m(2) f1)
  have len: "length (flashcards (handleSaveTopicDetails ?m s)) = length (flashcards s)"
    by (simp add: save fold_renameCard_length f1)
  have subj: "\<forall>k < length (flashcards s).
             subject (flashcards s ! k) = name (topic m) \<longrightarrow>
             subject (flashcards (handleSaveTopicDetails ?m s) ! k) = trim newName"
    unfolding save cm using rename_subjects_any_identifiers [of _ ?s1 "name (topic m)"]
    by (simp add: f1)
  have spread: "spread t ?u = t\<lparr>name := trim newName, color := col, icon := ic\<rparr>" for t
    by (simp add: spread_def)
  have tops: "topics (handleSaveTopicDetails ?m s)
      = map (\<lambda>t. if topic_id t = editingTopicId
                  then t\<lparr>name := trim newName, color := col, icon := ic\<rparr> else t) (topics s)"
    by (simp add: save fold_renameCard_topics updateTopic_def spread)
  have "(topic m)\<lparr>name := trim newName, color := col, icon := ic\<rparr>
          \<in> set (topics (handleSaveTopicDetails ?m s))"
    unfolding tops using m(3,4) by (force simp: image_iff)
  then have ex: "\<exists>t \<in> set (topics (handleSaveTopicDetails ?m s)).
             topic_id t = editingTopicId \<and> name t = trim newName"
    using m(3)
    by (intro bexI [where x = "(topic m)\<lparr>name := trim newName, color := col, icon := ic\<rparr>"])
       simp_all
  have exact: "flashcards (handleSaveTopicDetails ?m s)
      = map (\<lambda>c. if subject c = name (topic m) then c\<lparr>subject := trim newName\<rparr> else c)
            (flashcards s)"
    if ids: "distinct (map card_id (flashcards s))"
  proof -
    have s1: "?s1 = ?s1\<lparr>flashcards :=
                 map (\<lambda>c. if c \<in> {} then c\<lparr>subject := trim newName\<rparr> else c) (flashcards s)\<rparr>"
      by (simp add: updateTopic_def)
    have "flashcards (fold (renameCard (trim newName)) (cards m) ?s1)
        = map (\<lambda>c. if c \<in> set (cards m) \<union> {} then c\<lparr>subject := trim newName\<rparr> else c)
              (flashcards s)"
      by (subst s1, rule fold_renameCard [OF ids]) (auto simp: m(2))
    also have "\<dots> = map (\<lambda>c. if subject c = name (topic m)
                              then c\<lparr>subject := trim newName\<rparr> else c) (flashcards s)"
      by (rule map_cong) (auto simp: m(2))
    finally show ?thesis by (simp add: save)
  qed
  from len subj tops ex exact show ?thesis by blast
qed

theorem rename_rewrites_subjects_witness:
  "openEditTopicModal mathApp ''1'' \<noteq> None
   \<and> trim (paddedName) = ''Maths''
   \<and> distinct (map card_id (flashcards mathApp))
   \<and> flashcards (handleSaveTopicDetails
        ((the (openEditTopicModal mathApp ''1''))
           \<lparr>topicName := paddedName, selectedColor := ''#DC2626'',
            selectedIcon := ''M''\<rparr>)
        mathApp)
     = [mkCard ''10'' ''p'' ''Maths'', mkCard ''11'' ''q'' ''Art'', mkCard ''12'' ''r'' ''Maths'']
   \<and> topics (handleSaveTopicDetails
        ((the (openEditTopicModal mathApp ''1''))
           \<lparr>topicName := paddedName, selectedColor := ''#DC2626'',
            selectedIcon := ''M''\<rparr>)
        mathApp)
     = [(mkTopic ''1'' ''Maths'')\<lparr>color := ''#DC2626'', icon := ''M''\<rparr>, mkTopic ''2'' ''Art'']
   \<and> openEditTopicModal dupApp ''1'' \<noteq> None
   \<and> map subject (flashcards dupApp) = [''Math'', ''Math'']
   \<and> map subject (flashcards (handleSaveTopicDetails
        ((the (openEditTopicModal dupApp ''1''))\<lparr>topicName := '' Maths'', selectedColor := ''c'',
            selectedIcon := ''i''\<rparr>) dupApp))
     = [''Maths'', ''Maths'']"
proof -
  have ids: "distinct (map card_id (flashcards mathApp))"
    by (simp add: mathApp_def mkCard_def)
  have modal: "openEditTopicModal mathApp ''1'' = Some (the (openEditTopicModal mathApp ''1''))"
    by (simp add: openEditTopicModal_def mathApp_def mkTopic_def)
  have modal2: "openEditTopicModal dupApp ''1'' = Some (the (openEditTopicModal dupApp ''1''))"
    by (simp add: openEditTopicModal_def dupApp_def mkTopic_def)
  have tr: "trim (paddedName) = ''Maths''"
    by code_simp
  then have ne: "trim (paddedName) \<noteq> []" by simp
  have tr2: "trim '' Maths'' = ''Maths''"
    by code_simp
  then have ne2: "trim '' Maths'' \<noteq> []" by simp
  have d0: "flashcards dupApp = [mkCard ''10'' ''p'' ''Math'', mkCard ''10'' ''q'' ''Math'']"
    by (simp add: dupApp_def)
  have n2: "name (topic (the (openEditTopicModal dupApp ''1''))) = ''Math''"
    by (simp add: openEditTopicModal_def dupApp_def mkTopic_def)
  let ?r = "flashcards (handleSaveTopicDetails
        ((the (openEditTopicModal dupApp ''1''))\<lparr>topicName := '' Maths'', selectedColor := ''c'',
            selectedIcon := ''i''\<rparr>) dupApp)"
  from rename_rewrites_subjects [OF modal2 ne2, where col = "''c''" and ic = "''i''"]
  have l: "length ?r = 2"
    and s: "\<forall>k<2. subject (flashcards dupApp ! k) = ''Math'' \<longrightarrow> subject (?r ! k) = ''Maths''"
    by (simp_all add: d0 n2 tr2)
  from s have "subject (?r ! 0) = ''Maths''" "subject (?r ! 1) = ''Maths''"
    by (simp_all add: d0 mkCard_def)
  with l have dup: "map subject ?r = [''Maths'', ''Maths'']"
    by (cases ?r; cases "tl ?r") auto
  have first: "flashcards (handleSaveTopicDetails
        ((the (openEditTopicModal mathApp ''1''))
           \<lparr>topicName := paddedName, selectedColor := ''#DC2626'',
            selectedIcon := ''M''\<rparr>)
        mathApp)
     = [mkCard ''10'' ''p'' ''Maths'', mkCard ''11'' ''q'' ''Art'', mkCard ''12'' ''r'' ''Maths'']"
    and second: "topics (handleSaveTopicDetails
        ((the (openEditTopicModal mathApp ''1''))
           \<lparr>topicName := paddedName, selectedColor := ''#DC2626'',
            selectedIcon := ''M''\<rparr>)
        mathApp)
     = [(mkTopic ''1'' ''Maths'')\<lparr>color := ''#DC2626'', icon := ''M''\<rparr>, mkTopic ''2'' ''Art'']"
    using rename_rewrites_subjects [OF modal ne, where col = "''#DC2626''" and ic = "''M''"] ids
    by (simp_all add: tr openEditTopicModal_def mathApp_def mkTopic_def mkCard_def)
  have m1: "openEditTopicModal mathApp ''1'' \<noteq> None"
    by (simp add: openEditTopicModal_def mathApp_def mkTopic_def)
  have m2: "openEditTopicModal dupApp ''1'' \<noteq> None"
    by (simp add: openEditTopicModal_def dupApp_def mkTopic_def)
  have d1: "map subject (flashcards dupApp) = [''Math'', ''Math'']"
    by (simp add: d0 mkCard_def)
  from m1 tr ids first second m2 d1 dup show ?thesis by blast
qed

text \<open>
  Without distinct identifiers the claim fails: when two cards of the renamed topic share
  an identifier, the second update overwrites both, and the first card ends with the
  question of the second.
\<close>

theorem rename_duplicate_id_counterexample:
  "subject (flashcards dupApp ! 0) = ''Math''
   \<and> question (flashcards dupApp ! 0) = ''p''
   \<and> question (flashcards (handleSaveTopicDetails
         ((the (openEditTopicModal dupApp ''1''))\<lparr>topicName := ''Maths''\<rparr>) dupApp) ! 0) = ''q''"
proof -
  have tr: "trim ''Maths'' = ''Maths''" by code_simp
  show ?thesis
    by (simp add: dupApp_def mkTopic_def mkCard_def openEditTopicModal_def
          handleSaveTopicDetails_def tr updateTopic_def renameCard_def
          updateFlashcard_def spread_def)
qed

section \<open>Importing a shared topic\<close>

lemma loadSharedTopic_new:
  assumes "find (\<lambda>t. name t = name (shared_topic d)) (topics r) = None"
  shows "topics (loadSharedTopic r now random d s) =
           topics s @ [(shared_topic d)\<lparr>topic_id := toString now, isPublic := Some True\<rparr>]"
    and "flashcards (loadSharedTopic r now random d s) =
           flashcards s @ map (\<lambda>(k, c). c\<lparr>card_id := toString now @ random k,
                                           subject := name (shared_topic d)\<rparr>)
                              (enumerate 0 (shared_flashcards d))"
    and "activeTopic (loadSharedTopic r now random d s) = Some (toString now)"
    and "console (loadSharedTopic r now random d s) = console s"
  using assms by (simp_all add: loadSharedTopic_def Let_def)

lemma toString_example: "toString 1700000000000 = ''1700000000000''"
  by (simp add: toString.simps digit_def)

text \<open>The two example links decode to the JSON texts of their payloads.\<close>

lemma atob_physicsLink: "atob physicsLink = Inr physicsText"
  by code_simp

lemma atob_mathLink: "atob mathLink = Inr mathText"
  by code_simp

lemma texts_differ: "physicsText \<noteq> mathText"
  by code_simp

text \<open>
  Decimal numerals: different numbers have different numerals, and a number from \<open>10^k\<close>
  up to \<open>10^(k + 1)\<close> has \<open>k + 1\<close> digits. So the numeral of a thirteen-digit clock
  reading is not the beginning of an identifier that begins with the numeral of another
  thirteen-digit reading.
\<close>

lemma toString_nonempty: "toString n \<noteq> []"
  by (subst toString.simps) simp

lemma digit_inj: "a < 10 \<Longrightarrow> b < 10 \<Longrightarrow> digit a = digit b \<Longrightarrow> a = b"
proof -
  assume a: "a < 10" and b: "b < 10" and e: "digit a = digit b"
  have d: "distinct ''0123456789''" by simp
  from a b e show "a = b"
    unfolding digit_def using d by (simp add: nth_eq_iff_index_eq)
qed

lemma toString_length: "length (toString n) = (if n < 10 then 1 else Suc (length (toString (n div 10))))"
  by (subst toString.simps) simp

lemma toString_inj: "toString a = toString b \<Longrightarrow> a = b"
proof (induction a arbitrary: b rule: toString.induct)
  case (1 a)
  show ?case
  proof (cases "a < 10")
    case True
    show ?thesis
    proof (cases "b < 10")
      case b: True
      from "1.prems" True b have "digit a = digit b"
        by (simp add: toString.simps [of a] toString.simps [of b])
      with True b show ?thesis by (rule digit_inj)
    next
      case b: False
      have "length (toString a) = 1" using True by (simp add: toString_length)
      moreover have "length (toString b) \<ge> 2"
        using b toString_nonempty [of "b div 10"]
        by (cases "toString (b div 10)") (simp_all add: toString_length)
      ultimately show ?thesis using "1.prems" by simp
    qed
  next
    case False
    show ?thesis
    proof (cases "b < 10")
      case b: True
      have "length (toString b) = 1" using b by (simp add: toString_length)
      moreover have "length (toString a) \<ge> 2"
        using False toString_nonempty [of "a div 10"]
        by (cases "toString (a div 10)") (simp_all add: toString_length)
      ultimately show ?thesis using "1.prems" by simp
    next
      case b: False
      from "1.prems" False b
      have "toString (a div 10) @ [digit (a mod 10)] = toString (b div 10) @ [digit (b mod 10)]"
        by (simp add: toString.simps [of a] toString.simps [of b])
      then have e: "toString (a div 10) = toString (b div 10)" "digit (a mod 10) = digit (b mod 10)"
        by simp_all
      from "1.IH" [OF False e(1)] have "a div 10 = b div 10" .
      moreover from e(2) have "a mod 10 = b mod 10"
        by (intro digit_inj) simp_all
      ultimately show ?thesis
        by (metis div_mult_mod_eq)
    qed
  qed
qed

lemma toString_digits:
  "10 ^ k \<le> n \<Longrightarrow> n < 10 ^ Suc k \<Longrightarrow> length (toString n) = Suc k"
proof (induction k arbitrary: n)
  case 0
  then show ?case by (simp add: toString_length)
next
  case (Suc k)
  from Suc.prems have ge: "\<not> n < 10"
    by (metis (no_types, opaque_lifting) One_nat_def le_trans not_le one_le_numeral power_Suc
        power_increasing power_one_right self_le_power zero_less_Suc)
  from Suc.prems have "10 ^ k \<le> n div 10" "n div 10 < 10 ^ Suc k"
    by (simp_all add: less_mult_imp_div_less less_eq_div_iff_mult_less_eq mult.commute)
  from Suc.IH [OF this] ge show ?case
    by (simp add: toString_length)
qed

lemma fresh_identifier:
  assumes now: "10 ^ 12 \<le> now" "now < 10 ^ 13"
      and old: "i = toString t @ rest" "10 ^ 12 \<le> t" "t < now"
  shows "toString now @ r \<noteq> i"
proof
  assume "toString now @ r = i"
  then have e: "toString now @ r = toString t @ rest" by (simp add: old(1))
  have "length (toString now) = 13"
    using toString_digits [of 12 now] now by simp
  moreover have "length (toString t) = 13"
    using toString_digits [of 12 t] old(2,3) now(2) by simp
  ultimately have "toString now = toString t"
    using e by (simp add: append_eq_append_conv)
  then have "now = t" by (rule toString_inj)
  with old(3) show False by simp
qed

text \<open>
  The effect on startup: without a share link the state is the content of local storage.
  With a link that decodes to a payload, \<open>loadSharedTopic\<close> runs in the closure of the first
  render, whose topic list is empty, so its test for an existing topic of the same name
  finds nothing and the payload is appended whatever the stored topics are.
\<close>

lemma loadOnMount_no_link:
  "loadOnMount JSON_parse now random storage None =
     \<lparr>topics = (case savedTopics storage of None \<Rightarrow> [] | Some ts \<Rightarrow> ts),
      flashcards = (case savedFlashcards storage of None \<Rightarrow> [] | Some cs \<Rightarrow> cs),
      activeTopic = (case savedActiveTopic storage of
                       None \<Rightarrow> None | Some a \<Rightarrow> if a = [] then None else Some a),
      console = []\<rparr>"
  by (simp add: loadOnMount_def checkSharedTopic_def firstRender_def Let_def
           split: option.splits)

lemma loadOnMount_link:
  assumes "q \<noteq> []" and "atob q = Inr text" and "JSON_parse text = Some d"
  shows "loadOnMount JSON_parse now random storage (Some q) =
           loadSharedTopic firstRender now random d
             (loadOnMount JSON_parse now random storage None)"
  using assms by (simp add: loadOnMount_def checkSharedTopic_def tryLoadShared_def Let_def)

lemma firstRender_no_topic:
  "find (\<lambda>t. name t = n) (topics firstRender) = None"
  by (simp add: firstRender_def)

lemma loadOnMount_import:
  assumes "q \<noteq> []" and "atob q = Inr text" and "JSON_parse text = Some d"
  shows "topics (loadOnMount JSON_parse now random storage (Some q))
           = topics (loadOnMount JSON_parse now random storage None)
             @ [(shared_topic d)\<lparr>topic_id := toString now, isPublic := Some True\<rparr>]"
    and "flashcards (loadOnMount JSON_parse now random storage (Some q))
           = flashcards (loadOnMount JSON_parse now random storage None)
             @ map (\<lambda>(k, c). c\<lparr>card_id := toString now @ random k,
                                subject := name (shared_topic d)\<rparr>)
                   (enumerate 0 (shared_flashcards d))"
    and "activeTopic (loadOnMount JSON_parse now random storage (Some q)) = Some (toString now)"
proof -
  let ?s = "loadOnMount JSON_parse now random storage None"
  note link = loadOnMount_link [where JSON_parse = JSON_parse and now = now and random = random
      and storage = storage, OF assms]
  note new = loadSharedTopic_new [where r = firstRender and d = d and now = now
      and random = random and s = ?s, OF firstRender_no_topic]
  show "topics (loadOnMount JSON_parse now random storage (Some q))
           = topics ?s @ [(shared_topic d)\<lparr>topic_id := toString now, isPublic := Some True\<rparr>]"
    unfolding link by (rule new(1))
  show "flashcards (loadOnMount JSON_parse now random storage (Some q))
           = flashcards ?s
             @ map (\<lambda>(k, c). c\<lparr>card_id := toString now @ random k,
                                subject := name (shared_topic d)\<rparr>)
                   (enumerate 0 (shared_flashcards d))"
    unfolding link by (rule new(2))
  show "activeTopic (loadOnMount JSON_parse now random storage (Some q)) = Some (toString now)"
    unfolding link by (rule new(3))
qed

text \<open>
  C7, as amended. \<open>loadSharedTopic\<close> is called at one place, in the effect that runs on
  startup, where the share link is decoded. For every content of local storage, every
  clock reading and every link that decodes to a payload, the import overwrites and
  changes no stored topic and no stored card: the stored topics and the stored flashcards
  are still there, in their places. When no stored topic has the name of the payload's
  topic, the import appends one topic, the payload's topic marked public and with the
  decimal numeral of the clock reading as its identifier, and one card per card of the
  payload, with that numeral followed by a random suffix as its identifier, and it makes
  the imported topic the active one. The identifiers in use are never looked at. The new
  identifiers differ from every identifier in use when the clock reading has thirteen
  digits and every identifier in use is the numeral of an earlier thirteen-digit clock
  reading, possibly followed by a suffix, which is how \<open>addTopic\<close>, \<open>addFlashcard\<close> and
  earlier imports make them.
\<close>

theorem import_on_startup_appends:
  assumes "q \<noteq> []" and "atob q = Inr text" and "JSON_parse text = Some d"
  shows "prefix (topics (loadOnMount JSON_parse now random storage None))
                (topics (loadOnMount JSON_parse now random storage (Some q)))
       \<and> prefix (flashcards (loadOnMount JSON_parse now random storage None))
                (flashcards (loadOnMount JSON_parse now random storage (Some q)))
       \<and> (name (shared_topic d)
             \<notin> name ` set (topics (loadOnMount JSON_parse now random storage None)) \<longrightarrow>
            topics (loadOnMount JSON_parse now random storage (Some q))
              = topics (loadOnMount JSON_parse now random storage None)
                @ [(shared_topic d)\<lparr>topic_id := toString now, isPublic := Some True\<rparr>]
          \<and> flashcards (loadOnMount JSON_parse now random storage (Some q))
              = flashcards (loadOnMount JSON_parse now random storage None)
                @ map (\<lambda>(k, c). c\<lparr>card_id := toString now @ random k,
                                   subject := name (shared_topic d)\<rparr>)
                      (enumerate 0 (shared_flashcards d))
          \<and> activeTopic (loadOnMount JSON_parse now random storage (Some q))
              = Some (toString now)
          \<and> (10 ^ 12 \<le> now \<and> now < 10 ^ 13
               \<and> (\<forall>i \<in> identifiers (loadOnMount JSON_parse now random storage None).
                     \<exists>t rest. i = toString t @ rest \<and> 10 ^ 12 \<le> t \<and> t < now)
             \<longrightarrow> toString now \<notin> identifiers (loadOnMount JSON_parse now random storage None)
               \<and> (\<forall>k. toString now @ random k
                         \<notin> identifiers (loadOnMount JSON_parse now random storage None))))"
proof -
  let ?s = "loadOnMount JSON_parse now random storage None"
  note new = loadOnMount_import [where JSON_parse = JSON_parse and now = now and random = random
      and storage = storage, OF assms]
  have fresh: "toString now @ r \<notin> identifiers ?s"
    if now: "10 ^ 12 \<le> now" "now < 10 ^ 13"
      and old: "\<forall>i \<in> identifiers ?s. \<exists>t rest. i = toString t @ rest \<and> 10 ^ 12 \<le> t \<and> t < now"
    for r
  proof
    assume "toString now @ r \<in> identifiers ?s"
    with old obtain t rest where "toString now @ r = toString t @ rest" "10 ^ 12 \<le> t" "t < now"
      by blast
    with fresh_identifier [OF now, of "toString t @ rest" t rest r] show False
      by simp
  qed
  have 1: "toString now \<notin> identifiers ?s \<and> (\<forall>k. toString now @ random k \<notin> identifiers ?s)"
    if "10 ^ 12 \<le> now \<and> now < 10 ^ 13
        \<and> (\<forall>i \<in> identifiers ?s. \<exists>t rest. i = toString t @ rest \<and> 10 ^ 12 \<le> t \<and> t < now)"
    using fresh [of "[]"] fresh that by simp
  have 2: "prefix (topics ?s) (topics (loadOnMount JSON_parse now random storage (Some q)))"
    unfolding new(1) by simp
  have 3: "prefix (flashcards ?s) (flashcards (loadOnMount JSON_parse now random storage (Some q)))"
    unfolding new(2) by simp
  from 2 3 new 1 show ?thesis
    by blast
qed

lemma toString_saved:
  "toString 1699990000000 = ''1699990000000''"
  "toString 1699990050000 = ''1699990050000''"
  "toString 1699990001000 = ''1699990001000''"
  "toString 1699990060000 = ''1699990060000''"
  by (simp_all add: toString.simps digit_def)

lemma identifiers_savedStorage:
  "identifiers (loadOnMount exampleParse 1700000000000 suffixes savedStorage None)
     = {''1699990000000'', ''1699990050000'', ''1699990001000'', ''1699990060000zz91mmc0q''}"
  by (auto simp: loadOnMount_no_link savedStorage_def identifiers_def mkTopic_def mkCard_def)

theorem import_on_startup_appends_witness:
  "physicsLink \<noteq> [] \<and> atob physicsLink = Inr physicsText
   \<and> exampleParse physicsText = Some physics
   \<and> name (shared_topic physics)
       \<notin> name ` set (topics (loadOnMount exampleParse 1700000000000 suffixes savedStorage None))
   \<and> identifiers (loadOnMount exampleParse 1700000000000 suffixes savedStorage None)
       = {toString 1699990000000 @ [], toString 1699990050000 @ [],
          toString 1699990001000 @ [], toString 1699990060000 @ ''zz91mmc0q''}
   \<and> topics (loadOnMount exampleParse 1700000000000 suffixes savedStorage (Some physicsLink))
       = [mkTopic ''1699990000000'' ''Math'', mkTopic ''1699990050000'' ''Art'',
          (mkTopic ''1700000000000'' ''Physics'')\<lparr>isPublic := Some True\<rparr>]
   \<and> flashcards (loadOnMount exampleParse 1700000000000 suffixes savedStorage (Some physicsLink))
       = [mkCard ''1699990001000'' ''p'' ''Math'', mkCard ''1699990060000zz91mmc0q'' ''q'' ''Art'',
          mkCard ''1700000000000k3j9x0a1b'' ''F?'' ''Physics'',
          mkCard ''1700000000000zz91mmc0q'' ''E?'' ''Physics'']
   \<and> activeTopic (loadOnMount exampleParse 1700000000000 suffixes savedStorage (Some physicsLink))
       = Some ''1700000000000''
   \<and> ''1700000000000''
       \<notin> identifiers (loadOnMount exampleParse 1700000000000 suffixes savedStorage None)
   \<and> ''1700000000000k3j9x0a1b''
       \<notin> identifiers (loadOnMount exampleParse 1700000000000 suffixes savedStorage None)
   \<and> ''1700000000000zz91mmc0q''
       \<notin> identifiers (loadOnMount exampleParse 1700000000000 suffixes savedStorage None)"
proof -
  let ?s = "loadOnMount exampleParse 1700000000000 suffixes savedStorage None"
  have q: "physicsLink \<noteq> []"
    by (simp add: physicsLink_def)
  have p: "exampleParse physicsText = Some physics"
    by (simp add: exampleParse_def)
  have ids: "identifiers ?s
       = {toString 1699990000000 @ [], toString 1699990050000 @ [],
          toString 1699990001000 @ [], toString 1699990060000 @ ''zz91mmc0q''}"
    by (simp add: identifiers_savedStorage toString_saved)
  have old: "\<forall>i \<in> identifiers ?s.
               \<exists>t rest. i = toString t @ rest \<and> 10 ^ 12 \<le> t \<and> t < 1700000000000"
  proof
    fix i
    assume "i \<in> identifiers ?s"
    with ids consider "i = toString 1699990000000 @ []" | "i = toString 1699990050000 @ []"
      | "i = toString 1699990001000 @ []" | "i = toString 1699990060000 @ ''zz91mmc0q''"
      by blast
    then show "\<exists>t rest. i = toString t @ rest \<and> 10 ^ 12 \<le> t \<and> t < 1700000000000"
    proof cases
      case 1
      have "(10::nat) ^ 12 \<le> 1699990000000 \<and> (1699990000000::nat) < 1700000000000" by simp
      with 1 show ?thesis by blast
    next
      case 2
      have "(10::nat) ^ 12 \<le> 1699990050000 \<and> (1699990050000::nat) < 1700000000000" by simp
      with 2 show ?thesis by blast
    next
      case 3
      have "(10::nat) ^ 12 \<le> 1699990001000 \<and> (1699990001000::nat) < 1700000000000" by simp
      with 3 show ?thesis by blast
    next
      case 4
      have "(10::nat) ^ 12 \<le> 1699990060000 \<and> (1699990060000::nat) < 1700000000000" by simp
      with 4 show ?thesis by blast
    qed
  qed
  have now: "(10::nat) ^ 12 \<le> 1700000000000 \<and> (1700000000000::nat) < 10 ^ 13"
    by simp
  have nm: "name (shared_topic physics) \<notin> name ` set (topics ?s)"
    by (simp add: loadOnMount_no_link savedStorage_def physics_def mkTopic_def)
  note app = import_on_startup_appends [where JSON_parse = exampleParse
      and now = 1700000000000 and random = suffixes and storage = savedStorage,
      OF q atob_physicsLink p]
  from app nm now old
  have fresh: "toString 1700000000000 \<notin> identifiers ?s
       \<and> (\<forall>k. toString 1700000000000 @ suffixes k \<notin> identifiers ?s)"
    by blast
  then have f0: "''1700000000000'' \<notin> identifiers ?s"
    by (simp add: toString_example)
  from fresh have "toString 1700000000000 @ suffixes 0 \<notin> identifiers ?s"
    by blast
  then have f1: "''1700000000000k3j9x0a1b'' \<notin> identifiers ?s"
    by (simp add: toString_example suffixes_def)
  from fresh have "toString 1700000000000 @ suffixes 1 \<notin> identifiers ?s"
    by blast
  then have f2: "''1700000000000zz91mmc0q'' \<notin> identifiers ?s"
    by (simp add: toString_example suffixes_def)
  have t: "topics (loadOnMount exampleParse 1700000000000 suffixes savedStorage (Some physicsLink))
       = [mkTopic ''1699990000000'' ''Math'', mkTopic ''1699990050000'' ''Art'',
          (mkTopic ''1700000000000'' ''Physics'')\<lparr>isPublic := Some True\<rparr>]"
    using app nm
    by (simp add: loadOnMount_no_link savedStorage_def physics_def mkTopic_def toString_example)
  have c: "flashcards (loadOnMount exampleParse 1700000000000 suffixes savedStorage (Some physicsLink))
       = [mkCard ''1699990001000'' ''p'' ''Math'', mkCard ''1699990060000zz91mmc0q'' ''q'' ''Art'',
          mkCard ''1700000000000k3j9x0a1b'' ''F?'' ''Physics'',
          mkCard ''1700000000000zz91mmc0q'' ''E?'' ''Physics'']"
    using app nm
    by (simp add: loadOnMount_no_link savedStorage_def physics_def mkTopic_def mkCard_def
          toString_example suffixes_def enumerate_eq_zip upt_rec)
  have a: "activeTopic (loadOnMount exampleParse 1700000000000 suffixes savedStorage (Some physicsLink))
       = Some ''1700000000000''"
    using app nm by (simp add: toString_example)
  from q atob_physicsLink p nm ids t c a f0 f1 f2 show ?thesis
    by blast
qed

text \<open>
  As stated, the claim fails twice. An import at the clock reading at which \<open>addTopic\<close>
  made a stored topic gives the imported topic the identifier of that topic. And an import
  of a payload named like a stored topic is not a no-op: the closure of the effect is the
  first render, whose topic list is empty, so the test for an existing name finds nothing
  and a second topic of that name is appended and made active.
\<close>

theorem import_reuses_identifier_counterexample:
  "map topic_id (topics (loadOnMount exampleParse 1700000000000 suffixes clashStorage None))
     = [''1700000000000'']
   \<and> map topic_id
       (topics (loadOnMount exampleParse 1700000000000 suffixes clashStorage (Some physicsLink)))
     = [''1700000000000'', ''1700000000000'']
   \<and> map name (topics (loadOnMount exampleParse 1700000000000 suffixes mathStorage None))
     = [''Math'', ''Art'']
   \<and> atob mathLink = Inr mathText \<and> exampleParse mathText = Some mathShared
   \<and> map name
       (topics (loadOnMount exampleParse 1700000000000 suffixes mathStorage (Some mathLink)))
     = [''Math'', ''Art'', ''Math'']
   \<and> activeTopic (loadOnMount exampleParse 1700000000000 suffixes mathStorage None) = Some ''1''
   \<and> activeTopic (loadOnMount exampleParse 1700000000000 suffixes mathStorage (Some mathLink))
     = Some ''1700000000000''"
proof -
  have q1: "physicsLink \<noteq> []" by (simp add: physicsLink_def)
  have q2: "mathLink \<noteq> []" by (simp add: mathLink_def)
  have p1: "exampleParse physicsText = Some physics" by (simp add: exampleParse_def)
  have p2: "exampleParse mathText = Some mathShared"
    using texts_differ by (simp add: exampleParse_def)
  note l1 = loadOnMount_import [where JSON_parse = exampleParse and now = 1700000000000
      and random = suffixes and storage = clashStorage, OF q1 atob_physicsLink p1]
  note l2 = loadOnMount_import [where JSON_parse = exampleParse and now = 1700000000000
      and random = suffixes and storage = mathStorage, OF q2 atob_mathLink p2]
  have a: "map topic_id (topics (loadOnMount exampleParse 1700000000000 suffixes clashStorage None))
     = [''1700000000000'']"
    by (simp add: loadOnMount_no_link clashStorage_def clashApp_def addTopic_def firstRender_def
          mkTopic_def toString_example)
  have b: "map topic_id
       (topics (loadOnMount exampleParse 1700000000000 suffixes clashStorage (Some physicsLink)))
     = [''1700000000000'', ''1700000000000'']"
    unfolding l1(1)
    by (simp add: loadOnMount_no_link
          clashStorage_def clashApp_def addTopic_def firstRender_def mkTopic_def toString_example)
  have c: "map name (topics (loadOnMount exampleParse 1700000000000 suffixes mathStorage None))
     = [''Math'', ''Art'']"
    by (simp add: loadOnMount_no_link mathStorage_def mathApp_def mkTopic_def)
  have d: "map name
       (topics (loadOnMount exampleParse 1700000000000 suffixes mathStorage (Some mathLink)))
     = [''Math'', ''Art'', ''Math'']"
    unfolding l2(1)
    by (simp add: loadOnMount_no_link
          mathStorage_def mathApp_def mkTopic_def mathShared_def)
  have e: "activeTopic (loadOnMount exampleParse 1700000000000 suffixes mathStorage None) = Some ''1''"
    by (simp add: loadOnMount_no_link mathStorage_def)
  have f: "activeTopic (loadOnMount exampleParse 1700000000000 suffixes mathStorage (Some mathLink))
     = Some ''1700000000000''"
    unfolding l2(3)
    by (simp add: toString_example)
  from a b c atob_mathLink p2 d e f show ?thesis
    by blast
qed

section \<open>Invalid share links\<close>

lemma checkSharedTopic_invalid:
  assumes "(\<exists>e. atob q = Inl e) \<or> (\<exists>text. atob q = Inr text \<and> JSON_parse text = None)"
  shows "checkSharedTopic JSON_parse r now random (Some q) s =
           (if q = [] then s else s\<lparr>console := console s @ [''Invalid shared topic data'']\<rparr>)"
  using assms by (auto simp: checkSharedTopic_def tryLoadShared_def)

lemma atob_percent: "atob ''%%%'' = Inl InvalidCharacterError"
  by (simp add: atob_def stripPadding_def isAsciiWhitespace_def base64Alphabet_def)

text \<open>
  C9. For every value of the \<open>topic\<close> query parameter for which \<open>atob\<close> throws, or for
  which \<open>atob\<close> succeeds and \<open>JSON.parse\<close> throws, the effect run on startup ends
  normally with the topics, the flashcards and the active topic exactly as they are without
  a share link, and with the one line \<open>Invalid shared topic data\<close> on the console (no line
  for the empty value, which is skipped). Such input exists: \<open>atob\<close> throws on \<open>%%%\<close>, and the
  catch branch is taken.
\<close>

theorem invalid_share_link_ignored:
  "((\<exists>e. atob q = Inl e) \<or> (\<exists>text. atob q = Inr text \<and> JSON_parse text = None) \<longrightarrow>
      topics (loadOnMount JSON_parse now random storage (Some q))
        = topics (loadOnMount JSON_parse now random storage None)
    \<and> flashcards (loadOnMount JSON_parse now random storage (Some q))
        = flashcards (loadOnMount JSON_parse now random storage None)
    \<and> activeTopic (loadOnMount JSON_parse now random storage (Some q))
        = activeTopic (loadOnMount JSON_parse now random storage None)
    \<and> console (loadOnMount JSON_parse now random storage (Some q))
        = (if q = [] then [] else [''Invalid shared topic data'']))
   \<and> (\<exists>q'. atob q' = Inl InvalidCharacterError
          \<and> console (loadOnMount JSON_parse now random storage (Some q'))
              = [''Invalid shared topic data''])"
proof -
  have none: "checkSharedTopic JSON_parse r now random None s = s" for r s
    by (simp add: checkSharedTopic_def)
  have con: "console (loadOnMount JSON_parse now random storage None) = []"
    by (simp add: loadOnMount_def none Let_def firstRender_def split: option.splits)
  have 1: "topics (loadOnMount JSON_parse now random storage (Some q))
        = topics (loadOnMount JSON_parse now random storage None)
    \<and> flashcards (loadOnMount JSON_parse now random storage (Some q))
        = flashcards (loadOnMount JSON_parse now random storage None)
    \<and> activeTopic (loadOnMount JSON_parse now random storage (Some q))
        = activeTopic (loadOnMount JSON_parse now random storage None)
    \<and> console (loadOnMount JSON_parse now random storage (Some q))
        = (if q = [] then [] else [''Invalid shared topic data''])"
    if "(\<exists>e. atob q = Inl e) \<or> (\<exists>text. atob q = Inr text \<and> JSON_parse text = None)" for q
    using con by (simp add: loadOnMount_def Let_def checkSharedTopic_invalid [OF that] none)
  have "atob ''%%%'' = Inl InvalidCharacterError
      \<and> console (loadOnMount JSON_parse now random storage (Some ''%%%''))
          = [''Invalid shared topic data'']"
    using 1 [of "''%%%''"] atob_percent by simp
  then have 2: "\<exists>q'. atob q' = Inl InvalidCharacterError
          \<and> console (loadOnMount JSON_parse now random storage (Some q'))
              = [''Invalid shared topic data'']"
    by blast
  from 1 2 show ?thesis by blast
qed

theorem invalid_share_link_ignored_witness:
  "atob ''%%%'' = Inl InvalidCharacterError
   \<and> atob ''bm9wZQ=='' = Inr ''nope''
   \<and> topics (loadOnMount (\<lambda>text. None) 1700000000000 suffixes mathStorage (Some ''%%%''))
       = topics mathApp
   \<and> flashcards (loadOnMount (\<lambda>text. None) 1700000000000 suffixes mathStorage (Some ''bm9wZQ==''))
       = flashcards mathApp
   \<and> activeTopic (loadOnMount (\<lambda>text. None) 1700000000000 suffixes mathStorage (Some ''bm9wZQ==''))
       = Some ''1''
   \<and> console (loadOnMount (\<lambda>text. None) 1700000000000 suffixes mathStorage (Some ''bm9wZQ==''))
       = [''Invalid shared topic data'']"
proof -
  have a: "atob ''bm9wZQ=='' = Inr ''nope''"
    by code_simp
  have n: "topics (loadOnMount (\<lambda>text. None) 1700000000000 suffixes mathStorage None) = topics mathApp"
    "flashcards (loadOnMount (\<lambda>text. None) 1700000000000 suffixes mathStorage None) = flashcards mathApp"
    "activeTopic (loadOnMount (\<lambda>text. None) 1700000000000 suffixes mathStorage None) = Some ''1''"
    by (simp_all add: loadOnMount_def mathStorage_def firstRender_def checkSharedTopic_def)
  show ?thesis
    using invalid_share_link_ignored [of "''%%%''" "\<lambda>text. None" 1700000000000 suffixes mathStorage]
      invalid_share_link_ignored [of "''bm9wZQ==''" "\<lambda>text. None" 1700000000000 suffixes mathStorage]
      atob_percent a n
    by simp
qed

section \<open>Completing a work phase\<close>

text \<open>
  While the offset of the zone is the same now and 24 hours ago, the instant 24 hours
  before \<open>now\<close> lies on the previous calendar day, and the rule of the streak is the one
  of the calendar: unchanged on the same day, one more after the previous day, and \<open>1\<close>
  otherwise.
\<close>

lemma yesterday:
  assumes "zone (now - 86400000) = zone now"
  shows "toDateString zone (now - 86400000) = toDateString zone now - 1"
proof -
  have "(now - 86400000 + zone now) = (now + zone now) + (-1) * 86400000" by simp
  then have "(now - 86400000 + zone now) div 86400000 = (now + zone now) div 86400000 + (-1)"
    by (metis div_mult_self1 add.commute zero_neq_numeral)
  then show ?thesis by (simp add: toDateString_def assms)
qed

lemma work_completion_constant_offset:
  assumes "timerState s = Work" and "zone (now - 86400000) = zone now"
  shows "completedSessions (stats (handleTimerComplete zone settings s now pick s))
           = completedSessions (stats s) + 1
       \<and> totalFocusTime (stats (handleTimerComplete zone settings s now pick s))
           = totalFocusTime (stats s) + pomodoroWork settings
       \<and> lastSessionDate (stats (handleTimerComplete zone settings s now pick s)) = Some now
       \<and> streakDays (stats (handleTimerComplete zone settings s now pick s))
           = (case lastSessionDate (stats s) of
                None \<Rightarrow> 1
              | Some prev \<Rightarrow>
                  if toDateString zone prev = toDateString zone now then streakDays (stats s)
                  else if toDateString zone prev = toDateString zone now - 1
                  then streakDays (stats s) + 1
                  else 1)"
  using assms(1)
  by (simp add: handleTimerComplete_def Let_def updatePomodoroStats_def yesterday [OF assms(2)]
        split: option.splits)

lemma work_completion_fixed_zone:
  "toDateString (fixedZone 3600000) 1699900000000 = 19674
   \<and> toDateString (fixedZone 3600000) 1700000000000 = 19675
   \<and> stats (handleTimerComplete (fixedZone 3600000) initialSettings afterWork 1700000000000 2
              afterWork)
       = \<lparr>completedSessions = 4, totalFocusTime = 100, streakDays = 3,
          lastSessionDate = Some 1700000000000\<rparr>"
  by (simp add: afterWork_def initialSettings_def toDateString_def fixedZone_def
        handleTimerComplete_def updatePomodoroStats_def Let_def)

text \<open>
  C2 does not hold of the code. \<open>handleTimerComplete\<close> takes the day of the instant 24
  hours before \<open>now\<close> for yesterday. In New York on Monday 13 March 2023 at 00:30, the
  night after the clocks went forward, that instant is Saturday 11 March at 23:30: a work
  phase completed then, with the last session on Sunday 12 March at noon (the previous
  calendar day) and a streak of two days, sets the streak to \<open>1\<close> instead of \<open>3\<close>. The
  count of sessions and the focus time grow as claimed.
\<close>

theorem streak_reset_after_clock_change:
  "timerState afterSunday = Work
   \<and> streakDays (stats afterSunday) = 2
   \<and> lastSessionDate (stats afterSunday) = Some 1678636800000
   \<and> toDateString newYork 1678681800000 = 19429
   \<and> toDateString newYork 1678636800000 = 19428
   \<and> toDateString newYork (1678681800000 - 86400000) = 19427
   \<and> stats (handleTimerComplete newYork initialSettings afterSunday 1678681800000 2 afterSunday)
       = \<lparr>completedSessions = 4, totalFocusTime = 100, streakDays = 1,
          lastSessionDate = Some 1678681800000\<rparr>"
  by (simp add: afterSunday_def afterWork_def initialSettings_def toDateString_def newYork_def
        handleTimerComplete_def updatePomodoroStats_def Let_def)

text \<open>
  A work phase that was paused with no more time left than the longer break is resumed as
  a break (see the section on pausing), and its completion updates no statistic.
\<close>

lemma resumed_work_phase_counts_nothing:
  "timerState (startTimer initialSettings (pauseTimer workRunning) (pauseTimer workRunning)) = Break
   \<and> stats (handleTimerComplete zone initialSettings
              (startTimer initialSettings (pauseTimer workRunning) (pauseTimer workRunning))
              now pick
              (startTimer initialSettings (pauseTimer workRunning) (pauseTimer workRunning)))
       = stats workRunning"
  by (simp add: startTimer_def pauseTimer_def workRunning_def initialSettings_def
        handleTimerComplete_def Let_def)

section \<open>Pausing and resuming\<close>

text \<open>
  \<open>pauseTimer\<close> overwrites the state tag, and \<open>startTimer\<close> guesses the phase from the
  time that is left.
\<close>

lemma pause_resume:
  "startTimer settings (pauseTimer s) (pauseTimer s)
     = s\<lparr>timerState := (if timeLeft s \<le> max (pomodoroBreak settings) (longBreak settings) * 60
                         then Break else Work)\<rparr>"
  by (simp add: startTimer_def pauseTimer_def Let_def)

text \<open>
  C4 does not hold of the code. With the initial settings (25, 5 and 15 minutes), a long
  break paused with 900 seconds left resumes as \<open>break\<close>, and so does a work phase paused
  with 600 seconds left; the countdown itself is kept.
\<close>

theorem resume_forgets_paused_state:
  "timerState (startTimer initialSettings (pauseTimer longBreakRunning) (pauseTimer longBreakRunning))
     = Break
   \<and> timeLeft (startTimer initialSettings (pauseTimer longBreakRunning) (pauseTimer longBreakRunning))
     = 900
   \<and> timerState (startTimer initialSettings (pauseTimer workRunning) (pauseTimer workRunning))
     = Break"
  by (simp add: pause_resume longBreakRunning_def workRunning_def initialSettings_def)

text \<open>
  What does hold: a break is resumed as a break, and a work phase with more time left
  than the longer of the two breaks is resumed as work.
\<close>

lemma resume_restores:
  "timerState s = Break \<and> timeLeft s \<le> pomodoroBreak settings * 60
     \<or> timerState s = Work \<and> max (pomodoroBreak settings) (longBreak settings) * 60 < timeLeft s
   \<Longrightarrow> startTimer settings (pauseTimer s) (pauseTimer s) = s"
  by (auto simp: pause_resume)

section \<open>The accuracy is a rounded percentage\<close>













section \<open>Reaching the end of the deck\<close>

lemma clearAutoAdvance_None: "autoAdvanceTimer r = None \<Longrightarrow> clearAutoAdvance r s = s"
  by (simp add: clearAutoAdvance_def)

lemma clearAutoAdvance_deck:
  "deck (clearAutoAdvance r s) =
     (case autoAdvanceTimer r of None \<Rightarrow> deck s | Some h \<Rightarrow> (deck s)\<lparr>autoAdvanceTimer := None\<rparr>)"
  by (simp add: clearAutoAdvance_def clearTimeout_def Let_def split: option.splits)













text \<open>
  What the theorem leaves out are the handlers of renders that are out of date. The key
  effect depends on the index and the flags but not on the displayed cards. After the
  first render the key handler is the one of that render, which displays no card: the
  right arrow on the first of three cards ends the session at once. And the key handler of
  a render that displayed two cards moves the index past the one card that is left, without
  setting the completed flag.
\<close>

lemma first_key_handler_completes_at_once:
  "currentIndex (deck studying) = 0 \<and> length (displayCards (deck studying)) = 3
   \<and> deck (handleKeyPress False False initialDeck 1700000000000 ''ArrowRight'' studying)
       = (deck studying)\<lparr>isCompleted := True\<rparr>"
  by (simp add: handleKeyPress_def nextCard_def clearAutoAdvance_def studying_def
        initialDeck_def threeCards_def)

lemma stale_key_handler_moves_past_last:
  "displayCards (deck peeked) = [mkCard ''10'' ''p'' ''Math'', mkCard ''12'' ''r'' ''Math'']
   \<and> currentIndex (deck peeked) = 0 \<and> \<not> isFlipped (deck peeked) \<and> \<not> showAnswer (deck peeked)
   \<and> displayCards (deck oneLeft) = [mkCard ''12'' ''r'' ''Math'']
   \<and> currentIndex (deck oneLeft) = 0 \<and> \<not> isFlipped (deck oneLeft) \<and> \<not> showAnswer (deck oneLeft)
   \<and> currentIndex (deck (handleKeyPress False True (deck peeked) 1700000000000 ''ArrowRight'' oneLeft)) = 1
   \<and> \<not> isCompleted (deck (handleKeyPress False True (deck peeked) 1700000000000 ''ArrowRight'' oneLeft))
   \<and> displayCards (deck (handleKeyPress False True (deck peeked) 1700000000000 ''ArrowRight'' oneLeft))
       = [mkCard ''12'' ''r'' ''Math'']"
  by (simp add: handleKeyPress_def nextCard_def clearAutoAdvance_def oneLeft_def peeked_def
        pairStudy_def pairApp_def studyApp_def handleFlip_def shuffleEffect_def
        initialSettings_def activeFlashcards_def activeTopicData_def deleteFlashcard_def
        initialDeck_def mkCard_def mkTopic_def Let_def)

text \<open>
  Under \<open>App\<close> the tallies do not outlast an answer: \<open>onUpdateCard\<close> changes the state of
  \<open>App\<close>, \<open>App\<close> renders and filters its flashcards into a new array, and the effect of
  the deck sets the index and the tallies back to zero.
\<close>

lemma answer_under_App_clears_tallies:
  "quizScore (deck judgedFirst) = \<lparr>correct = 1, incorrect = 0\<rparr>
   \<and> quizScore (deck rerendered) = \<lparr>correct = 0, incorrect = 0\<rparr>
   \<and> currentIndex (deck rerendered) = 0
   \<and> map card_id (displayCards (deck rerendered)) = [''10'', ''12'', ''13'']"
  by (simp add: rerendered_def judgedFirst_def answerShown_def studying_def studyApp_def
        threeCards_def initialDeck_def initialSettings_def mkCard_def mkTopic_def
        markAnswer_def currentCard_def updateFlashcard_def orZero_def setTimeout_def
        shuffleEffect_def activeFlashcards_def activeTopicData_def Let_def)

section \<open>Restarting the deck\<close>

lemma mset_shuffle: "mset (shuffle rs xs) = mset xs"
proof (induction rs xs rule: shuffle.induct)
  case (3 r rs x xs)
  let ?ys = "x # xs"
  let ?i = "r mod length ?ys"
  have i: "?i < length ?ys" by simp
  have "mset (take ?i ?ys @ drop (Suc ?i) ?ys) + {#?ys ! ?i#} = mset ?ys"
    using i by (metis add_mset_add_single append_take_drop_id id_take_nth_drop mset.simps(2) mset_append union_mset_add_mset_right)
  with 3 show ?case
    by (simp add: Let_def)
qed simp_all

lemma resetQuiz_deck:
  "deck (resetQuiz (deck s) s) =
     (deck s)\<lparr>currentIndex := 0, isFlipped := False, showAnswer := False,
              quizScore := \<lparr>correct = 0, incorrect = 0\<rparr>, isCompleted := False,
              autoAdvanceTimer := None\<rparr>"
  by (cases "autoAdvanceTimer (deck s)")
     (simp_all add: resetQuiz_def Let_def clearAutoAdvance_def clearTimeout_def)

lemma resetQuiz_shuffled_deck:
  "deck (resetQuiz (deck s) (s\<lparr>deck := (deck s)\<lparr>displayCards := xs\<rparr>\<rparr>)) =
     (deck s)\<lparr>currentIndex := 0, isFlipped := False, showAnswer := False,
              quizScore := \<lparr>correct = 0, incorrect = 0\<rparr>, isCompleted := False,
              autoAdvanceTimer := None, displayCards := xs\<rparr>"
  by (cases "autoAdvanceTimer (deck s)")
     (simp_all add: resetQuiz_def Let_def clearAutoAdvance_def clearTimeout_def)

lemma restart_deck:
  "deck (restart how settings flashcardsProp rs s) =
     (deck s)\<lparr>currentIndex := 0, isFlipped := False, showAnswer := False,
              quizScore := \<lparr>correct = 0, incorrect = 0\<rparr>, isCompleted := False,
              autoAdvanceTimer := None,
              displayCards := (if how = ShuffleRestart \<and> shuffleCards settings
                               then shuffle rs flashcardsProp else displayCards (deck s))\<rparr>"
proof (cases how)
  case StudyAgain
  then show ?thesis
    by (simp add: restart_def restartDeck_def resetQuiz_deck)
next
  case ShuffleRestart
  then show ?thesis
    by (simp add: restart_def restartDeck_def shuffleAndRestart_def resetQuiz_deck
          resetQuiz_shuffled_deck Let_def)
next
  case PressR
  then show ?thesis
    by (simp add: restart_def handleKeyPress_def resetQuiz_deck)
qed

lemma shuffleEffect_synced:
  "synced settings flashcardsProp (deck (shuffleEffect settings flashcardsProp rs s))"
  by (simp add: synced_def shuffleEffect_def mset_shuffle)

text \<open>No other handler, and no timeout, changes the displayed order.\<close>

lemma clearAutoAdvance_displayCards:
  "displayCards (deck (clearAutoAdvance r s)) = displayCards (deck s)"
  by (simp add: clearAutoAdvance_deck split: option.splits)

lemma handlers_keep_displayCards:
  "displayCards (deck (nextCard r s)) = displayCards (deck s)"
  "displayCards (deck (previousCard r s)) = displayCards (deck s)"
  "displayCards (deck (handleFlip r s)) = displayCards (deck s)"
  "displayCards (deck (resetQuiz r s)) = displayCards (deck s)"
  "displayCards (deck (markAnswer r now judged s)) = displayCards (deck s)"
  by (simp_all add: nextCard_def previousCard_def handleFlip_def resetQuiz_def markAnswer_def
        setTimeout_def clearAutoAdvance_displayCards Let_def split: option.splits)

lemma fire_keeps_displayCards: "displayCards (deck (fire h s)) = displayCards (deck s)"
  by (simp add: fire_def clearTimeout_def handlers_keep_displayCards Let_def
        split: option.splits Timeout.splits)

text \<open>
  C8, as amended. Every restart (the buttons \<open>Study Again\<close> and \<open>Shuffle & Restart\<close>, and
  the key \<open>R\<close>) resets the index, the flip and reveal flags, the tallies and the completed
  flag. Only \<open>Shuffle & Restart\<close> with the shuffle setting on draws a new order, a
  permutation of the \<open>flashcards\<close> prop; every other restart keeps the displayed order,
  which with the shuffle setting off is the original order of the prop whenever the
  display was in step with the prop, as the effect leaves it.
\<close>

theorem restart_resets_session:
  "currentIndex (deck (restart how settings flashcardsProp rs s)) = 0
       \<and> \<not> isFlipped (deck (restart how settings flashcardsProp rs s))
       \<and> \<not> showAnswer (deck (restart how settings flashcardsProp rs s))
       \<and> quizScore (deck (restart how settings flashcardsProp rs s)) = \<lparr>correct = 0, incorrect = 0\<rparr>
       \<and> \<not> isCompleted (deck (restart how settings flashcardsProp rs s))
       \<and> (how = ShuffleRestart \<and> shuffleCards settings \<longrightarrow>
            displayCards (deck (restart how settings flashcardsProp rs s)) = shuffle rs flashcardsProp
          \<and> mset (displayCards (deck (restart how settings flashcardsProp rs s))) = mset flashcardsProp)
       \<and> (how \<noteq> ShuffleRestart \<or> \<not> shuffleCards settings \<longrightarrow>
            displayCards (deck (restart how settings flashcardsProp rs s)) = displayCards (deck s))
       \<and> (\<not> shuffleCards settings \<and> synced settings flashcardsProp (deck s) \<longrightarrow>
            displayCards (deck (restart how settings flashcardsProp rs s)) = flashcardsProp)
       \<and> (synced settings flashcardsProp (deck s) \<longrightarrow>
            synced settings flashcardsProp (deck (restart how settings flashcardsProp rs s)))"
  by (auto simp: restart_deck mset_shuffle synced_def)

theorem restart_resets_session_witness:
  "shuffleCards shuffleOn
   \<and> deck (restart ShuffleRestart shuffleOn threeCards [2, 0] atLastCard)
       = initialDeck\<lparr>displayCards := [mkCard ''13'' ''s'' ''Math'', mkCard ''10'' ''p'' ''Math'',
                                       mkCard ''12'' ''r'' ''Math'']\<rparr>
   \<and> \<not> shuffleCards initialSettings
   \<and> synced initialSettings threeCards (deck atLastCard)
   \<and> deck (restart ShuffleRestart initialSettings threeCards [2, 0] atLastCard)
       = initialDeck\<lparr>displayCards := threeCards\<rparr>
   \<and> deck (restart StudyAgain shuffleOn threeCards [2, 0] atLastCard)
       = initialDeck\<lparr>displayCards := threeCards\<rparr>"
proof -
  have sy: "synced initialSettings threeCards (deck atLastCard)"
    by (simp add: synced_def initialSettings_def atLastCard_def studying_def)
  have sh: "shuffle [2, 0] threeCards = [mkCard ''13'' ''s'' ''Math'', mkCard ''10'' ''p'' ''Math'',
                                       mkCard ''12'' ''r'' ''Math'']"
    by (simp add: threeCards_def Let_def)
  have d: "deck atLastCard = initialDeck\<lparr>displayCards := threeCards, currentIndex := 2,
                    quizScore := \<lparr>correct = 1, incorrect = 2\<rparr>\<rparr>"
    by (simp add: atLastCard_def studying_def)
  show ?thesis
    using restart_resets_session [of ShuffleRestart shuffleOn threeCards "[2, 0]" atLastCard]
      restart_resets_session [of ShuffleRestart initialSettings threeCards "[2, 0]" atLastCard]
      restart_resets_session [of StudyAgain shuffleOn threeCards "[2, 0]" atLastCard]
      sy sh
    by (simp add: restart_deck d shuffleOn_def initialSettings_def initialDeck_def)
qed

text \<open>
  With the shuffle setting on, \<open>Study Again\<close> and the key \<open>R\<close> on a completed session do
  not shuffle again: the displayed order stays, whatever the random draws would give.
\<close>

theorem study_again_keeps_order_counterexample:
  "shuffleCards shuffleOn
   \<and> isCompleted (deck (nextCard (deck atLastCard) atLastCard))
   \<and> shuffle [2, 0] threeCards = [mkCard ''13'' ''s'' ''Math'', mkCard ''10'' ''p'' ''Math'',
                                  mkCard ''12'' ''r'' ''Math'']
   \<and> displayCards (deck (restart StudyAgain shuffleOn threeCards [2, 0]
                             (nextCard (deck atLastCard) atLastCard)))
       = [mkCard ''10'' ''p'' ''Math'', mkCard ''12'' ''r'' ''Math'', mkCard ''13'' ''s'' ''Math'']
   \<and> displayCards (deck (restart PressR shuffleOn threeCards [2, 0]
                             (nextCard (deck atLastCard) atLastCard)))
       = [mkCard ''10'' ''p'' ''Math'', mkCard ''12'' ''r'' ''Math'', mkCard ''13'' ''s'' ''Math'']"
  by (simp add: shuffleOn_def initialSettings_def atLastCard_def studying_def threeCards_def
        initialDeck_def nextCard_def clearAutoAdvance_def restart_def restartDeck_def
        resetQuiz_def handleKeyPress_def Let_def)

section \<open>Pending timeouts\<close>

text \<open>
  \<open>setAutoAdvanceTimer\<close> is only ever called with \<open>null\<close>, so the cell stays empty, no handler
  clears a timeout, and \<open>markAnswer\<close> does not keep the handle of the timeout it starts.
\<close>

lemma navigation_keeps_timeouts:
  assumes "autoAdvanceTimer r = None"
  shows "timeouts (nextCard r s) = timeouts s"
    and "timeouts (previousCard r s) = timeouts s"
    and "timeouts (resetQuiz r s) = timeouts s"
    and "timeouts (handleFlip r s) = timeouts s"
  using assms
  by (simp_all add: nextCard_def previousCard_def resetQuiz_def handleFlip_def
        clearAutoAdvance_None Let_def)

lemma markAnswer_schedules:
  assumes "currentCard r = Some cur"
  shows "timeouts (markAnswer r now judged s) = timeouts s @ [(nextHandle s, AdvanceLater r)]"
    and "autoAdvanceTimer (deck (markAnswer r now judged s)) = autoAdvanceTimer (deck s)"
  using assms by (simp_all add: markAnswer_def setTimeout_def Let_def)

lemma handlers_never_set_autoAdvanceTimer:
  assumes "autoAdvanceTimer (deck s) = None"
  shows "autoAdvanceTimer (deck (nextCard r s)) = None"
    and "autoAdvanceTimer (deck (previousCard r s)) = None"
    and "autoAdvanceTimer (deck (resetQuiz r s)) = None"
    and "autoAdvanceTimer (deck (handleFlip r s)) = None"
    and "autoAdvanceTimer (deck (markAnswer r now judged s)) = None"
  using assms
  by (simp_all add: nextCard_def previousCard_def resetQuiz_def handleFlip_def markAnswer_def
        setTimeout_def clearAutoAdvance_deck Let_def split: option.splits)

text \<open>
  C3 does not hold of the code. The first card is judged, which starts the timeout of the
  delayed advance; the user moves to the second card and reveals its answer; the timeout is
  still pending (neither the effect nor the navigation removes it) and, when it fires, it
  runs \<open>nextCard\<close> of the render it was created in: the index is set to the second card
  once more and its answer is hidden again.
\<close>

theorem stale_advance_fires_on_next_card:
  "currentIndex (deck answerShown) = 0
   \<and> timeouts judgedFirst = [(1, AdvanceLater (deck answerShown))]
   \<and> timeouts rerendered = [(1, AdvanceLater (deck answerShown))]
   \<and> currentIndex (deck movedOn) = 1
   \<and> timeouts movedOn = [(1, AdvanceLater (deck answerShown))]
   \<and> showAnswer (deck revealedSecond) \<and> isFlipped (deck revealedSecond)
   \<and> timeouts revealedSecond = [(1, AdvanceLater (deck answerShown))]
   \<and> currentIndex (deck afterTimeout) = 1
   \<and> \<not> showAnswer (deck afterTimeout) \<and> \<not> isFlipped (deck afterTimeout)
   \<and> timeouts afterTimeout = []"
  by (simp add: afterTimeout_def revealedSecond_def movedOn_def rerendered_def judgedFirst_def
        answerShown_def studying_def studyApp_def threeCards_def initialDeck_def
        initialSettings_def mkCard_def mkTopic_def markAnswer_def currentCard_def
        setTimeout_def updateFlashcard_def shuffleEffect_def activeFlashcards_def
        activeTopicData_def nextCard_def clearAutoAdvance_def handleFlip_def fire_def
        clearTimeout_def orZero_def Let_def)

end
